theory Spec2Isabelle
  imports Complex_Main "HOL-Library.Word" "HOL-Library.Sublist"
begin

unbundle bit_operations_syntax

section \<open>Numeric conventions\<close>

text \<open>
  The firmware computes with C \<open>float\<close> and \<open>int\<close>. A C \<open>int\<close> whose values stay small is an
  \<^typ>\<open>int\<close>, and fixed-width values whose bits matter are words. A \<open>float\<close> is a
  \<^typ>\<open>real\<close>. In the traffic computations (the vertical adjustment, the distance scorer,
  the table and the sweep) its arithmetic is exact. In the packet codec and for the initial
  values of the export a value held in a \<open>float\<close> is rounded by \<open>to_float\<close> below: arithmetic
  that C carries out in \<open>double\<close> is exact up to the store into a \<open>float\<close>, and the
  conversion of an integer to \<open>float\<close> is exact for the integers that occur there (below
  \<open>2^24\<close>, or multiples of 128 below \<open>2^31\<close>).
\<close>

text \<open>The C cast \<open>(int) x\<close> of a floating value: truncation towards zero.\<close>

definition c_int :: "real \<Rightarrow> int" where
  "c_int x = (if 0 \<le> x then \<lfloor>x\<rfloor> else \<lceil>x\<rceil>)"

text \<open>
  The value a C \<open>float\<close> (IEEE binary32) holds when it is assigned the real \<open>x\<close>: the nearest
  multiple of the unit in the last place of \<open>x\<close>, halfway cases to the even multiple. The
  unit is \<open>2^(e - 23)\<close> for \<open>2^e \<le> |x| < 2^(e + 1)\<close>, and \<open>2^-149\<close> below \<open>2^-126\<close> (gradual
  underflow). Values beyond the largest finite \<open>float\<close>, which become infinite, are not
  modelled.
\<close>

definition round_even :: "real \<Rightarrow> int" where
  "round_even y =
     (let n = \<lfloor>y\<rfloor>; f = y - of_int n
      in if f < 1 / 2 then n else if f > 1 / 2 then n + 1 else if even n then n else n + 1)"

definition float_ulp :: "real \<Rightarrow> real" where
  "float_ulp x = 2 powr of_int (max \<lfloor>log 2 \<bar>x\<bar>\<rfloor> (- 126) - 23)"

definition to_float :: "real \<Rightarrow> real" where
  "to_float x = (if x = 0 then 0 else of_int (round_even (x / float_ulp x)) * float_ulp x)"

section \<open>Alarm levels and thresholds\<close>

text \<open>
  Modelled from the spec: the enumeration of alarm levels is declared in a header that is
  not among the sources; the spec fixes
  \<open>alarm_level \<in> {NONE(0), CLOSE(1), LOW(2), IMPORTANT(3), URGENT(4)}\<close>.
\<close>

definition ALARM_LEVEL_NONE :: int where "ALARM_LEVEL_NONE = 0"
definition ALARM_LEVEL_CLOSE :: int where "ALARM_LEVEL_CLOSE = 1"
definition ALARM_LEVEL_LOW :: int where "ALARM_LEVEL_LOW = 2"
definition ALARM_LEVEL_IMPORTANT :: int where "ALARM_LEVEL_IMPORTANT = 3"
definition ALARM_LEVEL_URGENT :: int where "ALARM_LEVEL_URGENT = 4"

text \<open>
  The zone radii, vertical thresholds, expiration times and table sizes are preprocessor
  constants of headers that are not among the sources. They are parameters of the model:
  every function that uses one takes the record of constants as its first argument.
  The integer-valued ones are those the code mixes with \<open>int\<close> variables.
\<close>

record params =
  ALARM_ZONE_NONE :: int
  ALARM_ZONE_CLOSE :: int
  ALARM_ZONE_LOW :: int
  ALARM_ZONE_IMPORTANT :: int
  ALARM_ZONE_URGENT :: int
  VERTICAL_SEPARATION :: int
  VERTICAL_SLOPE :: int
  VERTICAL_SLACK :: real
  VERTICAL_VISIBILITY_RANGE :: int
  STEALTH_DISTANCE :: int
  STEALTH_VERTICAL :: int
  ENTRY_EXPIRATION_TIME :: int
  EXPORT_EXPIRATION_TIME :: int
  TRAFFIC_VECTOR_UPDATE_INTERVAL :: int
  MAX_NMEA_OBJECTS :: nat
  ADDR_TYPE_RANDOM :: nat
  ADDR_TYPE_ANONYMOUS :: nat
  TRAFFIC_ALERT_SOUND :: "8 word"
  RF_PROTOCOL_ADSB_UAT :: nat
  RAW_SIZE :: nat
  GPS_MPS_PER_KNOT :: real
  GPS_FEET_PER_METER :: real
  RF_PROTOCOL_LEGACY :: nat

section \<open>Aircraft records\<close>

text \<open>
  \<open>ufo_t\<close>: one record per known aircraft, the local aircraft included. The fields are
  those the functions below read or write; the field \<open>next\<close> of the source is \<open>next_ndx\<close>
  here. Timestamps in seconds are integers, millisecond counters are 32-bit words.
\<close>

record ufo =
  addr :: "32 word"
  addr_type :: nat
  protocol :: nat
  latitude :: real
  longitude :: real
  altitude :: real
  geoid_separation :: real
  course :: real
  speed :: real
  vs :: real
  turnrate :: real
  aircraft_type :: nat
  airborne :: bool
  stealth :: bool
  no_track :: bool
  timestamp :: int
  gnsstime_ms :: "32 word"
  prevtime_ms :: "32 word"
  projtime_ms :: "32 word"
  prevcourse :: real
  fla_ns :: "int list"
  fla_ew :: "int list"
  rssi :: int
  distance :: real
  bearing :: real
  alt_diff :: real
  adj_alt_diff :: real
  adj_distance :: real
  dx :: real
  dy :: real
  alarm_level :: int
  alert_level :: int
  alert :: "8 word"
  callsign :: string
  raw :: "8 word list"
  next_ndx :: nat

section \<open>Vertical adjustment and the distance scorer\<close>

text \<open>
  \<open>Adj_alt_diff\<close>, first two statements: the relative vertical speed, set to zero when its
  magnitude exceeds 1000 fpm.
\<close>

definition Adj_vsr :: "ufo \<Rightarrow> ufo \<Rightarrow> real" where
  "Adj_vsr this_aircraft fop =
     (let vsr = vs fop - vs this_aircraft
      in if \<bar>vsr\<bar> > 1000 then 0 else vsr)"

text \<open>\<open>Adj_alt_diff\<close>, last block: the dead band of \<open>VERTICAL_SLACK\<close> metres.\<close>

definition Adj_slack :: "params \<Rightarrow> real \<Rightarrow> real" where
  "Adj_slack c a =
     (if a > 0 then (if a < VERTICAL_SLACK c then 0 else a - VERTICAL_SLACK c)
      else if - a < VERTICAL_SLACK c then 0
      else a + VERTICAL_SLACK c)"

definition Adj_alt_diff :: "params \<Rightarrow> ufo \<Rightarrow> ufo \<Rightarrow> real" where
  "Adj_alt_diff c this_aircraft fop =
     (let a = alt_diff fop;
          alt_change = Adj_vsr this_aircraft fop * 0.05
      in if a > 0 \<and> alt_change < 0 then
           (let a' = a + alt_change in if a' < 0 then 0 else Adj_slack c a')
         else if a < 0 \<and> alt_change > 0 then
           (let a' = a + alt_change in if a' > 0 then 0 else Adj_slack c a')
         else Adj_slack c a)"

definition Alarm_Distance :: "params \<Rightarrow> ufo \<Rightarrow> ufo \<Rightarrow> int" where
  "Alarm_Distance c this_aircraft fop =
     (if prevtime_ms this_aircraft = 0 then ALARM_LEVEL_NONE
      else
        let d = c_int (distance fop)
        in if real_of_int d > 2.0 * real_of_int (ALARM_ZONE_CLOSE c)
              \<or> \<bar>alt_diff fop\<bar> > real_of_int (2 * VERTICAL_SEPARATION c)
           then ALARM_LEVEL_NONE
           else
             let abs_alt_diff = \<bar>c_int (Adj_alt_diff c this_aircraft fop)\<bar>
             in if abs_alt_diff < VERTICAL_SEPARATION c then
                  (let d' = VERTICAL_SLOPE c * abs_alt_diff + d
                   in if d' < ALARM_ZONE_URGENT c then ALARM_LEVEL_URGENT
                      else if d' < ALARM_ZONE_IMPORTANT c then ALARM_LEVEL_IMPORTANT
                      else if d' < ALARM_ZONE_LOW c then ALARM_LEVEL_LOW
                      else if d' < ALARM_ZONE_CLOSE c then ALARM_LEVEL_CLOSE
                      else ALARM_LEVEL_NONE)
                else ALARM_LEVEL_NONE)"

section \<open>Traffic table\<close>

text \<open>
  \<open>EmptyFO\<close> is a global that is never written: all its fields are zero. \<open>Container\<close>,
  the array of \<open>MAX_TRACKING_OBJECTS\<close> records, is a list of that length; every loop
  over the array visits all elements of the list in index order.
\<close>

definition EmptyFO :: ufo where
  "EmptyFO = \<lparr> addr = 0, addr_type = 0, protocol = 0, latitude = 0, longitude = 0,
     altitude = 0, geoid_separation = 0, course = 0, speed = 0, vs = 0, turnrate = 0,
     aircraft_type = 0, airborne = False, stealth = False, no_track = False,
     timestamp = 0, gnsstime_ms = 0, prevtime_ms = 0, projtime_ms = 0, prevcourse = 0,
     fla_ns = [0, 0, 0, 0], fla_ew = [0, 0, 0, 0], rssi = 0, distance = 0, bearing = 0,
     alt_diff = 0, adj_alt_diff = 0, adj_distance = 0, dx = 0, dy = 0,
     alarm_level = 0, alert_level = 0, alert = 0, callsign = [], raw = [], next_ndx = 0 \<rparr>"

text \<open>
  The approximate trigonometry of \<open>ApproxMath\<close> is not among the sources; the functions
  that \<open>Traffic_Update\<close> and the packet decoder call are parameters.
\<close>

record approx_math =
  CosLat :: "real \<Rightarrow> real"
  atan2_approx :: "real \<Rightarrow> real \<Rightarrow> real"
  approxHypotenuse :: "real \<Rightarrow> real \<Rightarrow> real"

text \<open>
  \<open>Alarm_Level\<close> is a function pointer, null until \<open>Traffic_setup\<close> has run: an optional
  function from the local aircraft and the target to a level.
\<close>

type_synonym alarm_fn = "ufo \<Rightarrow> ufo \<Rightarrow> int"

definition Alarm_None :: "ufo \<Rightarrow> ufo \<Rightarrow> int" where
  "Alarm_None this_aircraft fop = ALARM_LEVEL_NONE"

definition Alarm_Legacy :: "ufo \<Rightarrow> ufo \<Rightarrow> int" where
  "Alarm_Legacy this_aircraft fop = ALARM_LEVEL_NONE"

definition Traffic_Update :: "approx_math \<Rightarrow> alarm_fn option \<Rightarrow> ufo \<Rightarrow> ufo \<Rightarrow> ufo" where
  "Traffic_Update m Alarm_Level this_aircraft fop =
     (let y = latitude fop - latitude this_aircraft;
          x = (longitude fop - longitude this_aircraft) * CosLat m (latitude this_aircraft);
          fop1 = fop\<lparr> distance := 111300.0 * sqrt (x * x + y * y),
                       bearing := atan2_approx m y x,
                       alt_diff := altitude fop - altitude this_aircraft \<rparr>
      in case Alarm_Level of
           None \<Rightarrow> fop1
         | Some f \<Rightarrow>
             (let fop2 = fop1\<lparr> alarm_level := f this_aircraft fop1 \<rparr>
              in if alarm_level fop2 < alert_level fop2
                 then fop2\<lparr> alert_level := alarm_level fop2 + 1 \<rparr>
                 else fop2))"

subsection \<open>Global state\<close>

text \<open>
  The globals the receive path and the sweep share: the local aircraft, the table, the
  scratch record \<open>fo\<close> and the settings they consult. Serial output is not part of the
  state.
\<close>

record settings_t =
  ignore_id :: "32 word"
  follow_id :: "32 word"
  id_method :: nat
  nmea_l :: bool
  nmea2_l :: bool

record sys =
  ThisAircraft :: ufo
  Container :: "ufo list"
  fo :: ufo
  settings :: settings_t

text \<open>What one call of \<open>ParseData\<close> reads from the radio driver and the clocks.\<close>

record rx_env =
  RxBuffer :: "8 word list"
  TxBuffer :: "8 word list"
  rx_size :: nat
  RF_last_rssi :: int
  now :: int
  millis :: "32 word"

text \<open>
  A protocol decoder gets the received bytes, the local aircraft and the record to fill;
  it returns its verdict and the filled record. \<open>protocol_decode\<close> is a function pointer
  that may be null.
\<close>

type_synonym decoder = "8 word list \<Rightarrow> ufo \<Rightarrow> ufo \<Rightarrow> bool \<times> ufo"

definition generate_random_id :: "params \<Rightarrow> 32 word \<Rightarrow> sys \<Rightarrow> sys" where
  "generate_random_id c ms s =
     (let id0 = (ms XOR push_bit 5 ms XOR drop_bit 5 ms) AND 0x000FFFFF;
          id1 = (if id_method (settings s) = ADDR_TYPE_RANDOM c
                 then id0 OR 0x00E00000 else id0 OR 0x00F00000)
      in s\<lparr> ThisAircraft := (ThisAircraft s)\<lparr> addr := id1 \<rparr> \<rparr>)"

text \<open>The index of the first element of the array that passes a test, if any.\<close>

fun first_ndx :: "('a \<Rightarrow> bool) \<Rightarrow> 'a list \<Rightarrow> nat option" where
  "first_ndx P [] = None"
| "first_ndx P (x # xs) = (if P x then Some 0 else map_option Suc (first_ndx P xs))"

text \<open>
  The loop of \<open>ParseData\<close> that finds the farthest tracked object: \<open>i\<close> is the running
  index, the accumulator holds \<open>max_dist_ndx\<close> and \<open>adj_max_dist\<close>.
\<close>

fun farthest :: "params \<Rightarrow> ufo \<Rightarrow> ufo list \<Rightarrow> nat \<Rightarrow> nat \<times> real \<Rightarrow> nat \<times> real" where
  "farthest c this_aircraft [] i acc = acc"
| "farthest c this_aircraft (u # us) i (max_dist_ndx, adj_max_dist) =
     (let adj_dist = distance u
            + real_of_int (VERTICAL_SLOPE c) * \<bar>Adj_alt_diff c this_aircraft u\<bar>
      in farthest c this_aircraft us (Suc i)
           (if adj_dist > adj_max_dist then (i, adj_dist) else (max_dist_ndx, adj_max_dist)))"

text \<open>
  \<open>ParseData\<close>, built with the traffic filter extension (\<open>EXCLUDE_TRAFFIC_FILTER_EXTENSION\<close>
  undefined). Each \<open>return\<close> of the source is one branch. \<open>ParseData_store\<close> is the last
  part of the function, from the first loop over the table to the end: it gets the decoded
  and scored record and gives the new table.
\<close>

definition ParseData_store :: "params \<Rightarrow> ufo \<Rightarrow> int \<Rightarrow> ufo \<Rightarrow> ufo list \<Rightarrow> ufo list" where
  "ParseData_store c this_aircraft now_s fo2 C =
     (case first_ndx (\<lambda>u. addr u = addr fo2) C of
        Some i \<Rightarrow>
          C[i := fo2\<lparr> prevcourse := course (C ! i),
                        prevtime_ms := gnsstime_ms (C ! i),
                        alert := alert (C ! i),
                        alert_level := alert_level (C ! i) \<rparr>]
      | None \<Rightarrow>
     (case first_ndx (\<lambda>u. now_s - timestamp u > ENTRY_EXPIRATION_TIME c) C of
        Some i \<Rightarrow> C[i := fo2]
      | None \<Rightarrow>
     (case first_ndx (\<lambda>u. alarm_level fo2 > alarm_level u) C of
        Some i \<Rightarrow> C[i := fo2]
      | None \<Rightarrow>
          (let (max_dist_ndx, adj_max_dist) = farthest c this_aircraft C 0 (0, 0)
           in if distance fo2
                   + real_of_int (VERTICAL_SLOPE c) * \<bar>Adj_alt_diff c this_aircraft fo2\<bar>
                 < adj_max_dist
                 \<and> alarm_level fo2 \<ge> alarm_level (C ! max_dist_ndx)
              then C[max_dist_ndx := fo2]
              else C))))"

definition ParseData ::
  "params \<Rightarrow> approx_math \<Rightarrow> alarm_fn option \<Rightarrow> decoder option \<Rightarrow> rx_env \<Rightarrow> sys \<Rightarrow> sys" where
  "ParseData c m Alarm_Level protocol_decode e s =
     (let n = rx_size e;
          s1 = s\<lparr> fo := (fo s)\<lparr> raw := take n (RxBuffer e) @ replicate (RAW_SIZE c - n) 0 \<rparr> \<rparr>
      in if take n (RxBuffer e) = take n (TxBuffer e) then s1
         else
           case protocol_decode of
             None \<Rightarrow> s1\<lparr> fo := EmptyFO \<rparr>
           | Some dec \<Rightarrow>
               (let (ok, fo1) = dec (RxBuffer e) (ThisAircraft s) EmptyFO
                in if \<not> ok then s1\<lparr> fo := fo1 \<rparr>
                   else if addr fo1 = ignore_id (settings s) then s1\<lparr> fo := fo1 \<rparr>
                   else if addr fo1 = addr (ThisAircraft s) then
                     generate_random_id c (millis e)
                       (s1\<lparr> fo := fo1,
                           settings := (settings s)\<lparr> id_method := ADDR_TYPE_ANONYMOUS c \<rparr> \<rparr>)
                   else
                     (let fo2 = Traffic_Update m Alarm_Level (ThisAircraft s)
                                  (fo1\<lparr> rssi := RF_last_rssi e \<rparr>)
                      in s1\<lparr> fo := fo2,
                             Container :=
                               ParseData_store c (ThisAircraft s) (now e) fo2 (Container s) \<rparr>)))"

subsection \<open>The periodic sweep\<close>

text \<open>
  One iteration of the loop of \<open>Traffic_loop\<close> over slot \<open>i\<close>. The accumulator is the
  table, \<open>mfop\<close> (the slot to alert on, a pointer in the source) and \<open>max_alarm_level\<close>.
\<close>

definition Traffic_loop_slot ::
  "params \<Rightarrow> approx_math \<Rightarrow> alarm_fn option \<Rightarrow> ufo
     \<Rightarrow> ufo list \<times> nat option \<times> int \<Rightarrow> nat \<Rightarrow> ufo list \<times> nat option \<times> int" where
  "Traffic_loop_slot c m Alarm_Level this_aircraft acc i =
     (case acc of (C, mfop, max_alarm_level) \<Rightarrow>
        let fop = C ! i
        in if addr fop \<noteq> 0 then
             if timestamp this_aircraft - timestamp fop \<le> ENTRY_EXPIRATION_TIME c then
               (let fop1 = (if timestamp this_aircraft - timestamp fop
                                 \<ge> TRAFFIC_VECTOR_UPDATE_INTERVAL c
                            then Traffic_Update m Alarm_Level this_aircraft fop else fop);
                    C1 = C[i := fop1]
                in if alarm_level fop1 > alert_level fop1
                      \<and> alarm_level fop1 > ALARM_LEVEL_CLOSE
                      \<and> alarm_level fop1 > max_alarm_level
                   then (C1, Some i, alarm_level fop1)
                   else (C1, mfop, max_alarm_level))
             else (C[i := EmptyFO], mfop, max_alarm_level)
           else (C, mfop, max_alarm_level))"

text \<open>The loop of \<open>Traffic_loop\<close>: table, \<open>mfop\<close> and \<open>max_alarm_level\<close> after the scan.\<close>

definition Traffic_loop_scan ::
  "params \<Rightarrow> approx_math \<Rightarrow> alarm_fn option \<Rightarrow> ufo \<Rightarrow> ufo list
     \<Rightarrow> ufo list \<times> nat option \<times> int" where
  "Traffic_loop_scan c m Alarm_Level this_aircraft C =
     foldl (Traffic_loop_slot c m Alarm_Level this_aircraft)
       (C, None, ALARM_LEVEL_NONE) [0 ..< length C]"

text \<open>
  \<open>Traffic_loop\<close> when \<open>isTimeToUpdateTraffic()\<close> holds. The result is the new table and
  the argument of \<open>Sound_Notify\<close>, if it is called.
\<close>

definition Traffic_loop ::
  "params \<Rightarrow> approx_math \<Rightarrow> alarm_fn option \<Rightarrow> ufo \<Rightarrow> ufo list \<Rightarrow> ufo list \<times> int option" where
  "Traffic_loop c m Alarm_Level this_aircraft C =
     (case Traffic_loop_scan c m Alarm_Level this_aircraft C of
        (C1, mfop, max_alarm_level) \<Rightarrow>
          if max_alarm_level > ALARM_LEVEL_CLOSE then
            (case mfop of
               None \<Rightarrow> (C1, Some max_alarm_level)
             | Some j \<Rightarrow>
                 (C1[j := (C1 ! j)\<lparr> alert_level := alarm_level (C1 ! j) + 1,
                                     alert := alert (C1 ! j) OR TRAFFIC_ALERT_SOUND c \<rparr>],
                  Some max_alarm_level))
          else (C1, None))"

text \<open>The sound alert of one sweep is for slot \<open>i\<close>: \<open>mfop\<close> points to it when the sound is given.\<close>

definition sounds_for ::
  "params \<Rightarrow> approx_math \<Rightarrow> alarm_fn option \<Rightarrow> ufo \<Rightarrow> ufo list \<Rightarrow> nat \<Rightarrow> bool" where
  "sounds_for c m Alarm_Level this_aircraft C i =
     (case Traffic_loop_scan c m Alarm_Level this_aircraft C of
        (C1, mfop, max_alarm_level) \<Rightarrow> max_alarm_level > ALARM_LEVEL_CLOSE \<and> mfop = Some i)"

subsection \<open>The history of one slot after a sound alert\<close>

text \<open>
  \<open>since_alert c m A i L low C\<close>: the table \<open>C\<close> is reached from a sweep that gave the
  sound alert for slot \<open>i\<close> at alarm level \<open>L\<close>, by further sweeps that gave no sound
  alert for slot \<open>i\<close> and by calls of \<open>ParseData\<close>, with any state of the local aircraft
  and any received packet at each step, while slot \<open>i\<close> kept its address (the track was
  neither dropped nor replaced). \<open>low\<close> is the lowest alarm level the slot has shown
  after a step since the alert, \<open>L\<close> included.
\<close>

inductive since_alert ::
  "params \<Rightarrow> approx_math \<Rightarrow> alarm_fn option \<Rightarrow> nat \<Rightarrow> int \<Rightarrow> int \<Rightarrow> ufo list \<Rightarrow> bool"
  for c :: params and m :: approx_math and Alarm_Level :: "alarm_fn option" and i :: nat and L :: int
  where
    alerted:
      "sounds_for c m Alarm_Level this_aircraft C i
       \<Longrightarrow> Traffic_loop c m Alarm_Level this_aircraft C = (C', sound)
       \<Longrightarrow> alarm_level (C' ! i) = L
       \<Longrightarrow> since_alert c m Alarm_Level i L L C'"
  | swept:
      "since_alert c m Alarm_Level i L low C
       \<Longrightarrow> \<not> sounds_for c m Alarm_Level this_aircraft C i
       \<Longrightarrow> Traffic_loop c m Alarm_Level this_aircraft C = (C', sound)
       \<Longrightarrow> addr (C' ! i) = addr (C ! i)
       \<Longrightarrow> since_alert c m Alarm_Level i L (min low (alarm_level (C' ! i))) C'"
  | received:
      "since_alert c m Alarm_Level i L low C
       \<Longrightarrow> Container s = C
       \<Longrightarrow> C' = Container (ParseData c m Alarm_Level protocol_decode e s)
       \<Longrightarrow> addr (C' ! i) = addr (C ! i)
       \<Longrightarrow> since_alert c m Alarm_Level i L (min low (alarm_level (C' ! i))) C'"

section \<open>The Legacy packet codec\<close>

subsection \<open>XXTEA with six rounds\<close>

text \<open>
  \<open>btea\<close> works in place on an array of 32-bit words; here it takes the array as a list and
  returns the new one. The sign of \<open>n\<close> selects coding or decoding, the list holds the \<open>|n|\<close>
  words. Each \<open>do\<close> loop runs \<open>ROUNDS = 6\<close> times.
\<close>

definition DELTA :: "32 word" where
  "DELTA = 0x9e3779b9"

definition MX :: "32 word list \<Rightarrow> 32 word \<Rightarrow> 32 word \<Rightarrow> 32 word \<Rightarrow> 32 word \<Rightarrow> 32 word \<Rightarrow> 32 word" where
  "MX key y z sm p e =
     ((drop_bit 5 z XOR push_bit 2 y) + (drop_bit 3 y XOR push_bit 4 z))
       XOR ((sm XOR y) + ((key ! unat ((p AND 3) XOR e)) XOR z))"

text \<open>The body of the inner \<open>for\<close> loop of the coding part, for one \<open>p\<close>.\<close>

definition btea_enc_step ::
  "32 word list \<Rightarrow> 32 word \<Rightarrow> 32 word \<Rightarrow> 32 word list \<times> 32 word \<Rightarrow> nat \<Rightarrow> 32 word list \<times> 32 word" where
  "btea_enc_step key sm e vz p =
     (case vz of (v, z) \<Rightarrow>
        let y = v ! (p + 1);
            z' = v ! p + MX key y z sm (of_nat p) e
        in (v[p := z'], z'))"

text \<open>One round of the coding part after \<open>sum += DELTA\<close>; \<open>z\<close> is \<open>v[n - 1]\<close> when it starts.\<close>

definition btea_enc_round :: "32 word list \<Rightarrow> 32 word \<Rightarrow> 32 word list \<Rightarrow> 32 word list" where
  "btea_enc_round key sm v =
     (let n = length v;
          e = drop_bit 2 sm AND 3;
          (v1, z1) = foldl (btea_enc_step key sm e) (v, v ! (n - 1)) [0 ..< n - 1];
          y = v1 ! 0
      in v1[n - 1 := v1 ! (n - 1) + MX key y z1 sm (of_nat (n - 1)) e])"

fun btea_enc_rounds :: "nat \<Rightarrow> 32 word list \<Rightarrow> 32 word \<Rightarrow> 32 word list \<Rightarrow> 32 word list" where
  "btea_enc_rounds 0 key sm v = v"
| "btea_enc_rounds (Suc rounds) key sm v =
     (let sm' = sm + DELTA in btea_enc_rounds rounds key sm' (btea_enc_round key sm' v))"

text \<open>The decoding part: the inner loop runs from \<open>p = n - 1\<close> down to 1.\<close>

definition btea_dec_step ::
  "32 word list \<Rightarrow> 32 word \<Rightarrow> 32 word \<Rightarrow> 32 word list \<times> 32 word \<Rightarrow> nat \<Rightarrow> 32 word list \<times> 32 word" where
  "btea_dec_step key sm e vy p =
     (case vy of (v, y) \<Rightarrow>
        let z = v ! (p - 1);
            y' = v ! p - MX key y z sm (of_nat p) e
        in (v[p := y'], y'))"

definition btea_dec_round :: "32 word list \<Rightarrow> 32 word \<Rightarrow> 32 word list \<Rightarrow> 32 word list" where
  "btea_dec_round key sm v =
     (let n = length v;
          e = drop_bit 2 sm AND 3;
          (v1, y1) = foldl (btea_dec_step key sm e) (v, v ! 0) (rev [1 ..< n]);
          z = v1 ! (n - 1)
      in v1[0 := v1 ! 0 - MX key y1 z sm 0 e])"

fun btea_dec_rounds :: "nat \<Rightarrow> 32 word list \<Rightarrow> 32 word \<Rightarrow> 32 word list \<Rightarrow> 32 word list" where
  "btea_dec_rounds 0 key sm v = v"
| "btea_dec_rounds (Suc rounds) key sm v =
     btea_dec_rounds rounds key (sm - DELTA) (btea_dec_round key sm v)"

definition btea :: "32 word list \<Rightarrow> int \<Rightarrow> 32 word list \<Rightarrow> 32 word list" where
  "btea v n key =
     (if n > 1 then btea_enc_rounds 6 key 0 v
      else if n < - 1 then btea_dec_rounds 6 key (6 * DELTA) v
      else v)"

subsection \<open>Key derivation\<close>

text \<open>
  The key material \<open>LEGACY_KEY1\<close> (a table of eight words), \<open>LEGACY_KEY2\<close> and \<open>LEGACY_KEY3\<close>
  is defined in a header that is not among the sources: it is a parameter.
\<close>

record legacy_keys =
  LEGACY_KEY1 :: "32 word list"
  LEGACY_KEY2 :: "32 word"
  LEGACY_KEY3 :: "32 word"

definition obscure :: "32 word \<Rightarrow> 32 word \<Rightarrow> 32 word" where
  "obscure key seed =
     (let m1 = seed * (key XOR drop_bit 16 key);
          m2 = seed * (m1 XOR drop_bit 16 m1)
      in m2 XOR drop_bit 16 m2)"

definition make_key :: "legacy_keys \<Rightarrow> 32 word \<Rightarrow> 32 word \<Rightarrow> 32 word list" where
  "make_key k ts address =
     map (\<lambda>i. let ndx = (if drop_bit 23 ts AND 1 \<noteq> 0 then i + 4 else i)
               in obscure (LEGACY_KEY1 k ! ndx XOR (drop_bit 6 ts XOR address)) (LEGACY_KEY2 k)
                    XOR LEGACY_KEY3 k)
       [0 ..< 4]"

subsection \<open>The packet and its bit fields\<close>

text \<open>
  A packet is the 24 bytes of \<open>legacy_packet_t\<close>, held as six 32-bit words; byte \<open>j\<close> of a word
  is its bits \<open>8j\<close> to \<open>8j + 7\<close>. The declaration of \<open>legacy_packet_t\<close> is in a header that is
  not among the sources, so the placement of its members is a parameter: each member the
  codec names has a word, a bit offset in that word and a width. The members \<open>ns\<close> and \<open>ew\<close>
  are arrays of four signed bytes.
\<close>

record bitfield =
  fld_word :: nat
  fld_off :: nat
  fld_wid :: nat

record layout =
  L_addr :: bitfield
  L_unk0 :: bitfield
  L_addr_type :: bitfield
  L_unk1 :: bitfield
  L_vs :: bitfield
  L_unk2 :: bitfield
  L_airborne :: bitfield
  L_stealth :: bitfield
  L_no_track :: bitfield
  L_parity :: bitfield
  L_gps :: bitfield
  L_aircraft_type :: bitfield
  L_lat :: bitfield
  L_alt :: bitfield
  L_lon :: bitfield
  L_unk3 :: bitfield
  L_smult :: bitfield
  L_ns :: "bitfield list"
  L_ew :: "bitfield list"

definition get_field :: "bitfield \<Rightarrow> 32 word list \<Rightarrow> 32 word" where
  "get_field f pkt = drop_bit (fld_off f) (pkt ! fld_word f) AND mask (fld_wid f)"

definition set_field :: "bitfield \<Rightarrow> 32 word \<Rightarrow> 32 word list \<Rightarrow> 32 word list" where
  "set_field f x pkt =
     pkt[fld_word f :=
           (pkt ! fld_word f AND NOT (push_bit (fld_off f) (mask (fld_wid f))))
           OR push_bit (fld_off f) (x AND mask (fld_wid f))]"

text \<open>A member read as a signed value of its width.\<close>

definition get_signed :: "bitfield \<Rightarrow> 32 word list \<Rightarrow> int" where
  "get_signed f pkt = signed_take_bit (fld_wid f - 1) (uint (get_field f pkt))"

text \<open>The bytes of a packet in memory order.\<close>

definition pkt_bytes :: "32 word list \<Rightarrow> 8 word list" where
  "pkt_bytes pkt = concat (map (\<lambda>w. map (\<lambda>j. ucast (drop_bit (8 * j) w)) [0 ..< 4]) pkt)"

text \<open>
  Modelled from the spec: the helper \<open>parity\<close> is not among the sources; the spec describes it
  as each byte's own bit-parity, the number of set bits of the byte modulo 2.
\<close>

definition parity :: "8 word \<Rightarrow> nat" where
  "parity b = sum_list (map (\<lambda>k. of_bool (bit b k)) [0 ..< 8]) mod 2"

text \<open>
  The loop that adds up \<open>parity\<close> over the bytes of the packet. The sum is at most 24, so
  the 8-bit counter of the source does not wrap.
\<close>

definition pkt_parity :: "32 word list \<Rightarrow> nat" where
  "pkt_parity pkt = sum_list (map parity (pkt_bytes pkt))"

text \<open>\<open>btea\<close> on \<open>(uint32_t *) pkt + 1\<close> with five words: the first word stays as it is.\<close>

definition pkt_btea :: "int \<Rightarrow> 32 word list \<Rightarrow> 32 word list \<Rightarrow> 32 word list" where
  "pkt_btea n key pkt = take 1 pkt @ btea (take 5 (drop 1 pkt)) n key @ drop 6 pkt"

subsection \<open>Encoder\<close>

text \<open>\<open>roundf\<close>: the nearest integer, halfway cases away from zero.\<close>

definition c_roundf :: "real \<Rightarrow> int" where
  "c_roundf x = (if 0 \<le> x then \<lfloor>x + 1 / 2\<rfloor> else \<lceil>x - 1 / 2\<rceil>)"

text \<open>The scale exponent chosen from the speed in quarter metres per second.\<close>

definition legacy_smult :: "int \<Rightarrow> nat" where
  "legacy_smult speed4 =
     (if speed4 AND 0x200 \<noteq> 0 then 3
      else if speed4 AND 0x100 \<noteq> 0 then 2
      else if speed4 AND 0x080 \<noteq> 0 then 1
      else 0)"

text \<open>
  The speed in quarter metres per second, \<open>(uint16_t) roundf(speedf * 4.0f)\<close> clamped to
  \<open>0x3FF\<close>. The cast keeps the low 16 bits of the integer; where the rounded value is
  outside \<open>0 .. 65535\<close> C leaves the cast undefined, and the low 16 bits are what the
  conversion through a wider integer gives.
\<close>

definition legacy_speed4 :: "params \<Rightarrow> ufo \<Rightarrow> int" where
  "legacy_speed4 c this_aircraft =
     (let speedf = to_float (speed this_aircraft * GPS_MPS_PER_KNOT c);
          speed4 = take_bit 16 (c_roundf (to_float (speedf * 4)))
      in if speed4 > 0x3FF then 0x3FF else speed4)"

text \<open>The folded latitude or longitude of the encoder, before the mask.\<close>

definition legacy_fold :: "real \<Rightarrow> 32 word" where
  "legacy_fold x =
     (if x < 0 then word_of_int (- drop_bit 7 (c_int (- x * 10000000) + 0x40))
      else drop_bit 7 (word_of_int (c_int (x * 10000000)) + 0x40))"

text \<open>
  The packet with all members written except the final parity bit: the assignments of
  \<open>legacy_encode\<close> in their order, up to the parity loop. \<open>project_this\<close>, which fills the
  velocity components and the airborne flag of the local aircraft, is not among the
  sources and is a parameter. It works on the record in place: \<open>this_aircraft\<close> is the
  record as \<open>legacy_encode\<close> receives it, from which position, altitude, speed and climb
  rate are read before the call, and \<open>this1\<close> is the record after the call, from which the
  velocity components, the flags, the address and the aircraft type are read. The casts
  to \<open>int16_t\<close> keep the low 16 bits as a signed value.
\<close>

definition legacy_fill ::
  "params \<Rightarrow> layout \<Rightarrow> settings_t \<Rightarrow> ufo \<Rightarrow> ufo \<Rightarrow> 32 word list \<Rightarrow> 32 word list" where
  "legacy_fill c lay st this_aircraft this1 pkt =
     (let alt = signed_take_bit 15
                  (c_int (to_float (altitude this_aircraft + geoid_separation this_aircraft)));
          vsf = to_float (vs this_aircraft / (GPS_FEET_PER_METER c * 60.0));
          smult = legacy_smult (legacy_speed4 c this_aircraft);
          p1 = set_field (L_smult lay) (of_nat smult) pkt;
          p2 = set_field (L_airborne lay) (of_bool (airborne this1)) p1;
          p3 = foldl (\<lambda>p i.
                  set_field (L_ew lay ! i) (word_of_int (drop_bit smult (fla_ew this1 ! i)))
                    (set_field (L_ns lay ! i) (word_of_int (drop_bit smult (fla_ns this1 ! i))) p))
                 p2 [0 ..< 4];
          vs10 = signed_take_bit 15 (c_roundf (to_float (vsf * 10)));
          p4 = set_field (L_vs lay) (word_of_int (drop_bit smult vs10)) p3;
          p5 = set_field (L_addr_type lay) (of_nat (id_method st)) p4;
          p6 = set_field (L_addr lay) (addr this1 AND 0x00FFFFFF) p5;
          p7 = set_field (L_parity lay) 0 p6;
          p8 = set_field (L_stealth lay) (of_bool (stealth this1)) p7;
          p9 = set_field (L_no_track lay) (of_bool (no_track this1)) p8;
          p10 = set_field (L_aircraft_type lay) (of_nat (aircraft_type this1)) p9;
          p11 = set_field (L_gps lay) 323 p10;
          p12 = set_field (L_lat lay) (legacy_fold (latitude this_aircraft) AND 0x07FFFF) p11;
          p13 = set_field (L_lon lay) (legacy_fold (longitude this_aircraft) AND 0x0FFFFF) p12;
          p14 = set_field (L_alt lay) (word_of_int alt) p13;
          p15 = set_field (L_unk0 lay) 0 p14;
          p16 = set_field (L_unk1 lay) 0 p15;
          p17 = set_field (L_unk2 lay) 1 p16
      in set_field (L_unk3 lay) 0 p17)"

text \<open>The packet before encryption: the parity bit is set from the parity of all bytes.\<close>

definition legacy_plain ::
  "params \<Rightarrow> layout \<Rightarrow> settings_t \<Rightarrow> ufo \<Rightarrow> ufo \<Rightarrow> 32 word list \<Rightarrow> 32 word list" where
  "legacy_plain c lay st this_aircraft this1 pkt =
     (let p = legacy_fill c lay st this_aircraft this1 pkt
      in set_field (L_parity lay) (of_nat (pkt_parity p mod 2)) p)"

text \<open>
  \<open>legacy_encode\<close>: the buffer it is given, the packet it leaves there, and the local aircraft
  after \<open>project_this\<close>. The size it returns is that of the packet.
\<close>

definition legacy_encode ::
  "params \<Rightarrow> layout \<Rightarrow> legacy_keys \<Rightarrow> settings_t \<Rightarrow> (ufo \<Rightarrow> ufo) \<Rightarrow> 32 word list \<Rightarrow> ufo
     \<Rightarrow> 32 word list \<times> ufo" where
  "legacy_encode c lay k st project_this pkt this_aircraft =
     (let this1 = project_this this_aircraft;
          p = legacy_plain c lay st this_aircraft this1 pkt;
          ts = word_of_int (timestamp this_aircraft);
          key = make_key k ts (push_bit 8 (get_field (L_addr lay) p) AND 0xffffff)
      in (pkt_btea 5 key p, this1))"

subsection \<open>Decoder\<close>

text \<open>The reference latitude or longitude in units of 128e-7 degrees.\<close>

definition legacy_round :: "real \<Rightarrow> int" where
  "legacy_round r =
     (if r < 0 then - drop_bit 7 (c_int (- r * 10000000) + 0x40)
      else drop_bit 7 (c_int (r * 10000000) + 0x40))"

text \<open>
  A folded coordinate of \<open>bits\<close> bits unfolded around the reference, as the decoder does
  for 19 and for 20 bits; the result is in degrees, held in a \<open>float\<close>.
\<close>

definition legacy_unfold :: "nat \<Rightarrow> real \<Rightarrow> 32 word \<Rightarrow> real" where
  "legacy_unfold bits r x =
     (let round_r = legacy_round r;
          i0 = take_bit bits (uint x - round_r);
          i1 = (if i0 \<ge> 2 ^ (bits - 1) then i0 - 2 ^ bits else i0)
      in to_float (real_of_int (push_bit 7 (i1 + round_r)) * (1 / 10000000)))"

text \<open>The packet after decryption, as \<open>legacy_decode\<close> leaves it in the receive buffer.\<close>

definition legacy_decrypt :: "layout \<Rightarrow> legacy_keys \<Rightarrow> ufo \<Rightarrow> 32 word list \<Rightarrow> 32 word list" where
  "legacy_decrypt lay k this_aircraft pkt =
     (let ts = word_of_int (timestamp this_aircraft);
          key = make_key k ts (push_bit 8 (get_field (L_addr lay) pkt) AND 0xffffff)
      in pkt_btea (- 5) key pkt)"

text \<open>
  \<open>legacy_decode\<close>: the verdict and the record it fills. \<open>this_aircraft\<close> is the local
  aircraft, which the source reaches both through its argument and through the global;
  \<open>ms\<close> is the value of \<open>millis()\<close>.
\<close>

definition legacy_decode ::
  "params \<Rightarrow> layout \<Rightarrow> legacy_keys \<Rightarrow> settings_t \<Rightarrow> approx_math \<Rightarrow> 32 word
     \<Rightarrow> 32 word list \<Rightarrow> ufo \<Rightarrow> ufo \<Rightarrow> bool \<times> ufo" where
  "legacy_decode c lay k st m ms pkt0 this_aircraft fop =
     (let pkt = legacy_decrypt lay k this_aircraft pkt0
      in if pkt_parity pkt mod 2 \<noteq> 0 then (False, fop)
         else
           let fop1 = fop\<lparr> addr := get_field (L_addr lay) pkt \<rparr>
           in if addr fop1 = ignore_id st then (True, fop1)
              else if addr fop1 = addr this_aircraft then (True, fop1)
              else
                (let smult = unat (get_field (L_smult lay) pkt);
                     ns = (\<lambda>i. get_signed (L_ns lay ! i) pkt);
                     ew = (\<lambda>i. get_signed (L_ew lay ! i) pkt);
                     nsf = real_of_int (push_bit smult (ns 0));
                     ewf = real_of_int (push_bit smult (ew 0));
                     crs = atan2_approx m nsf ewf;
                     speed4 = approxHypotenuse m nsf ewf;
                     turn = (if speed4 > 0 then
                               (let nextcourse = atan2_approx m (real_of_int (ns 1))
                                                   (real_of_int (ew 1));
                                    t0 = to_float (nextcourse - crs);
                                    t1 = (if t0 > 270.0 then to_float (t0 - 360.0) else t0);
                                    t2 = (if t1 < - 270.0 then to_float (t1 + 360.0) else t1)
                                in to_float (0.333 * t2))
                             else 0);
                     vs10 = push_bit smult (get_signed (L_vs lay) pkt);
                     alt = uint (get_field (L_alt lay) pkt)
                 in (True,
                     fop1\<lparr> protocol := RF_PROTOCOL_LEGACY c,
                           addr_type := unat (get_field (L_addr_type lay) pkt),
                           timestamp := uint (word_of_int (timestamp this_aircraft) :: 32 word),
                           gnsstime_ms := ms,
                           airborne := (get_field (L_airborne lay) pkt \<noteq> 0),
                           latitude := legacy_unfold 19 (latitude this_aircraft)
                                         (get_field (L_lat lay) pkt),
                           longitude := legacy_unfold 20 (longitude this_aircraft)
                                          (get_field (L_lon lay) pkt),
                           altitude := to_float (real_of_int alt
                                                   - geoid_separation this_aircraft),
                           speed := to_float ((1.0 / (4.0 * GPS_MPS_PER_KNOT c)) * speed4),
                           course := crs,
                           turnrate := turn,
                           vs := to_float (real_of_int vs10 * (GPS_FEET_PER_METER c * 6.0)),
                           aircraft_type := unat (get_field (L_aircraft_type lay) pkt),
                           stealth := (get_field (L_stealth lay) pkt \<noteq> 0),
                           no_track := (get_field (L_no_track lay) pkt \<noteq> 0),
                           fla_ns := (fla_ns fop)[0 := push_bit smult (ns 0),
                                                  1 := push_bit smult (ns 1)],
                           fla_ew := (fla_ew fop)[0 := push_bit smult (ew 0),
                                                  1 := push_bit smult (ew 1)],
                           projtime_ms := ms \<rparr>)))"

section \<open>NMEA export\<close>

text \<open>
  \<open>NMEA_Export\<close> up to and including the \<open>$PFLAU\<close> sentence. Sentences are records of their
  fields; the text of a sentence, its checksum and the choice of output port are not
  modelled, nor is the heartbeat sentence that follows. What the function reads besides the
  table, the local aircraft and the settings is in \<open>export_env\<close>: the clock, whether there is
  a fix (or the test mode), whether transmission is switched off, and the power status
  computed from the battery voltage.
\<close>

record export_env =
  this_moment :: int
  has_Fix :: bool
  tx_off :: bool
  power_status :: int

datatype gnss_status = GNSS_STATUS_NONE | GNSS_STATUS_3D_GROUND | GNSS_STATUS_3D_MOVING

text \<open>
  The name field of \<open>$PFLAA\<close>: the callsign when the record has one, else a substitute made
  of the protocol prefix and the identifier.
\<close>

datatype name_field = Substitute nat "32 word" | Callsign string

record pflaa =
  pa_alarm_level :: int
  pa_dy :: int
  pa_dx :: int
  pa_alt_diff :: int
  pa_addr_type :: nat
  pa_id :: "32 word"
  pa_name :: name_field
  pa_course :: int
  pa_speed :: int
  pa_climb_rate :: "real option"
  pa_aircraft_type :: nat

record pflau =
  pu_total_objects :: nat
  pu_tx_on :: bool
  pu_gnss :: gnss_status
  pu_power_status :: int
  pu_alarm_level :: int
  pu_rel_bearing :: int
  pu_alt_diff :: int
  pu_distance :: int
  pu_addr :: "32 word"

datatype sentence =
    PFLAA pflaa
  | PFLAU pflau
  | PFLAU_no_target bool gnss_status int

text \<open>
  The high priority object: the local variables \<open>HP_...\<close> of the function. The two distances
  are \<open>float\<close> variables initialised with the literal 999999999.
\<close>

record hp_obj =
  HP_alt_diff :: int
  HP_alarm_level :: int
  HP_adj_dist :: real
  HP_distance :: real
  HP_bearing :: real
  HP_addr :: "32 word"
  HP_stealth :: bool

definition HP_init :: hp_obj where
  "HP_init = \<lparr> HP_alt_diff = 0, HP_alarm_level = ALARM_LEVEL_NONE,
     HP_adj_dist = to_float 999999999, HP_distance = to_float 999999999, HP_bearing = 0,
     HP_addr = 0, HP_stealth = False \<rparr>"

text \<open>The fuzzified altitude difference, \<open>(alt_diff & 0xFFFFFF00) + 128\<close>.\<close>

definition fuzzify :: "int \<Rightarrow> int" where
  "fuzzify a = (a AND NOT 255) + 128"

text \<open>
  The test of the first loop that puts slot \<open>cip\<close> on the list of traffic to report:
  a slot in use, fresh enough, not hidden by the stealth rule, and alarming, near or followed.
\<close>

definition export_listed :: "params \<Rightarrow> settings_t \<Rightarrow> int \<Rightarrow> ufo \<Rightarrow> ufo \<Rightarrow> bool" where
  "export_listed c st moment this_aircraft cip =
     (addr cip \<noteq> 0 \<and> moment - timestamp cip \<le> EXPORT_EXPIRATION_TIME c
      \<and> (let stealthy = (stealth cip \<or> stealth this_aircraft);
               al = alarm_level cip;
               d = distance cip;
               a = c_int (alt_diff cip);
               abs_alt_diff = c_int \<bar>adj_alt_diff cip\<bar>;
               show = \<not> (stealthy \<and> al \<le> ALARM_LEVEL_CLOSE
                         \<and> (d > real_of_int (STEALTH_DISTANCE c) \<or> \<bar>a\<bar> > STEALTH_VERTICAL c))
           in (al > ALARM_LEVEL_NONE
               \<or> (d < real_of_int (ALARM_ZONE_NONE c) \<and> abs_alt_diff < VERTICAL_VISIBILITY_RANGE c)
               \<or> addr cip = follow_id st)
              \<and> show))"

text \<open>
  The sorted list is a chain through the \<open>next\<close> fields of the table, from \<open>head\<close> to the
  end mark \<open>MAX_TRACKING_OBJECTS\<close>. It is represented by the list of the slot indices in
  chain order: \<open>head\<close> is its first element, \<open>total_objects\<close> its length, the \<open>next\<close> field of
  an entry is the entry after it, or the end mark. \<open>list_insert\<close> is the \<open>while\<close> loop with the
  pointer updates after it: slot \<open>i\<close> goes before the first entry that the loop breaks on,
  or to the end.
\<close>

fun list_insert :: "ufo list \<Rightarrow> settings_t \<Rightarrow> ufo \<Rightarrow> nat \<Rightarrow> nat list \<Rightarrow> nat list" where
  "list_insert C st cip i [] = [i]"
| "list_insert C st cip i (n # ns) =
     (if alarm_level (C ! n) \<le> alarm_level cip
         \<and> addr (C ! n) \<noteq> follow_id st
         \<and> adj_distance (C ! n) \<ge> adj_distance cip
      then i # n # ns
      else n # list_insert C st cip i ns)"

text \<open>One iteration of the first loop: the list and the high priority object after slot \<open>i\<close>.\<close>

definition export_slot ::
  "params \<Rightarrow> settings_t \<Rightarrow> int \<Rightarrow> ufo \<Rightarrow> ufo list \<Rightarrow> nat list \<times> hp_obj \<Rightarrow> nat
     \<Rightarrow> nat list \<times> hp_obj" where
  "export_slot c st moment this_aircraft C acc i =
     (case acc of (order, hp) \<Rightarrow>
        let cip = C ! i
        in if export_listed c st moment this_aircraft cip then
             (let stealthy = (stealth cip \<or> stealth this_aircraft);
                  order1 = list_insert C st cip i order;
                  hp1 = (if alarm_level cip > HP_alarm_level hp
                            \<or> (alarm_level cip = HP_alarm_level hp
                                \<and> adj_distance cip \<le> HP_adj_dist hp)
                         then \<lparr> HP_alt_diff = c_int (alt_diff cip),
                                HP_alarm_level = alarm_level cip,
                                HP_adj_dist = adj_distance cip,
                                HP_distance = distance cip,
                                HP_bearing = bearing cip,
                                HP_addr = (if stealthy then 0xFFFFF0 + of_nat i else addr cip),
                                HP_stealth = stealthy \<rparr>
                         else hp)
              in (order1, hp1))
           else (order, hp))"

definition export_scan ::
  "params \<Rightarrow> settings_t \<Rightarrow> int \<Rightarrow> ufo \<Rightarrow> ufo list \<Rightarrow> nat list \<times> hp_obj" where
  "export_scan c st moment this_aircraft C =
     foldl (export_slot c st moment this_aircraft C) ([], HP_init) [0 ..< length C]"

text \<open>The \<open>$PFLAA\<close> sentence of iteration \<open>i\<close> of the second loop, for the list entry \<open>fop\<close>.\<close>

definition PFLAA_sentence :: "params \<Rightarrow> ufo \<Rightarrow> nat \<Rightarrow> ufo \<Rightarrow> pflaa" where
  "PFLAA_sentence c this_aircraft i fop =
     (let stealthy = (stealth fop \<or> stealth this_aircraft);
          masked = (stealthy \<and> alarm_level fop \<le> ALARM_LEVEL_CLOSE);
          a = c_int (alt_diff fop);
          ident = (if stealthy then 0xFFFFF0 + of_nat i else addr fop)
      in \<lparr> pa_alarm_level =
             (if alarm_level fop > ALARM_LEVEL_NONE then alarm_level fop - 1 else alarm_level fop),
           pa_dy = c_int (dy fop),
           pa_dx = c_int (dx fop),
           pa_alt_diff = (if masked then fuzzify a else a),
           pa_addr_type =
             (if stealthy then ADDR_TYPE_ANONYMOUS c
              else if addr_type fop > ADDR_TYPE_ANONYMOUS c then ADDR_TYPE_ANONYMOUS c
              else addr_type fop),
           pa_id = ident,
           pa_name = (if callsign fop = [] then Substitute (protocol fop) ident
                      else Callsign (callsign fop)),
           pa_course = (if masked then 0 else c_int (course fop)),
           pa_speed = (if masked then 0 else c_int (speed fop * GPS_MPS_PER_KNOT c)),
           pa_climb_rate =
             (if masked then None
              else Some (max (- 32.7) (min 32.7 (vs fop / (GPS_FEET_PER_METER c * 60.0))))),
           pa_aircraft_type = aircraft_type fop \<rparr>)"

text \<open>
  The second loop: \<open>i\<close> counts the iterations, the list is what remains of the chain. The
  result is the iterations that print a sentence, each with the slot it prints. The entry
  whose address is \<open>HP_addr\<close> is skipped when the list has \<open>MAX_NMEA_OBJECTS\<close> entries or more,
  and the loop ends when the \<open>next\<close> field of the entry is \<open>MAX_NMEA_OBJECTS\<close> or more.
\<close>

fun export_emit :: "params \<Rightarrow> nat \<Rightarrow> 32 word \<Rightarrow> ufo list \<Rightarrow> nat \<Rightarrow> nat list \<Rightarrow> (nat \<times> nat) list" where
  "export_emit c tot hpa C i [] = []"
| "export_emit c tot hpa C i (n # ns) =
     (if i < MAX_NMEA_OBJECTS c then
        (if tot < MAX_NMEA_OBJECTS c \<or> addr (C ! n) \<noteq> hpa then [(i, n)] else [])
        @ (if (case ns of [] \<Rightarrow> length C | n' # _ \<Rightarrow> n') \<ge> MAX_NMEA_OBJECTS c then []
           else export_emit c tot hpa C (Suc i) ns)
      else [])"

text \<open>
  The high priority object after the fallback to the head of the list, taken when there is
  a list but no object has been marked.
\<close>

definition export_hp_final :: "ufo \<Rightarrow> ufo list \<Rightarrow> nat list \<Rightarrow> hp_obj \<Rightarrow> hp_obj" where
  "export_hp_final this_aircraft C order hp =
     (case order of
        [] \<Rightarrow> hp
      | head # _ \<Rightarrow>
          if HP_addr hp = 0 \<and> addr (C ! head) \<noteq> 0 then
            (let cip = C ! head
             in hp\<lparr> HP_bearing := bearing cip,
                     HP_alt_diff := c_int (alt_diff cip),
                     HP_alarm_level := alarm_level cip,
                     HP_distance := distance cip,
                     HP_addr := (if stealth cip \<or> stealth this_aircraft then 0xFFFFF0 else addr cip),
                     HP_stealth := (stealth cip \<or> stealth this_aircraft) \<rparr>)
          else hp)"

definition PFLAU_sentence :: "export_env \<Rightarrow> ufo \<Rightarrow> nat \<Rightarrow> hp_obj \<Rightarrow> sentence" where
  "PFLAU_sentence e this_aircraft tot hp =
     (if HP_addr hp \<noteq> 0 then
        (let a = (if HP_stealth hp \<and> HP_alarm_level hp \<le> ALARM_LEVEL_CLOSE
                  then fuzzify (HP_alt_diff hp) else HP_alt_diff hp);
             rb = c_int (HP_bearing hp - course this_aircraft);
             rel_bearing = rb + (if rb < - 180 then 360 else if rb > 180 then - 360 else 0)
         in PFLAU \<lparr> pu_total_objects = tot,
                     pu_tx_on = (\<not> tx_off e),
                     pu_gnss = (if airborne this_aircraft then GNSS_STATUS_3D_MOVING
                                else GNSS_STATUS_3D_GROUND),
                     pu_power_status = power_status e,
                     pu_alarm_level = (if HP_alarm_level hp > ALARM_LEVEL_NONE
                                       then HP_alarm_level hp - 1 else HP_alarm_level hp),
                     pu_rel_bearing = rel_bearing,
                     pu_alt_diff = a,
                     pu_distance = c_int (HP_distance hp),
                     pu_addr = HP_addr hp \<rparr>)
      else PFLAU_no_target (has_Fix e \<and> \<not> tx_off e)
             (if has_Fix e then GNSS_STATUS_3D_MOVING else GNSS_STATUS_NONE)
             (power_status e))"

text \<open>The list and the high priority object after the first loop, which needs a fix.\<close>

definition export_list ::
  "params \<Rightarrow> settings_t \<Rightarrow> export_env \<Rightarrow> ufo \<Rightarrow> ufo list \<Rightarrow> nat list \<times> hp_obj" where
  "export_list c st e this_aircraft C =
     (if has_Fix e then export_scan c st (this_moment e) this_aircraft C else ([], HP_init))"

text \<open>The iterations and slots of the \<open>$PFLAA\<close> sentences, in the order they are printed.\<close>

definition export_PFLAA ::
  "params \<Rightarrow> settings_t \<Rightarrow> export_env \<Rightarrow> ufo \<Rightarrow> ufo list \<Rightarrow> (nat \<times> nat) list" where
  "export_PFLAA c st e this_aircraft C =
     (case export_list c st e this_aircraft C of
        (order, hp) \<Rightarrow> export_emit c (length order) (HP_addr hp) C 0 order)"

definition NMEA_Export :: "params \<Rightarrow> settings_t \<Rightarrow> export_env \<Rightarrow> ufo \<Rightarrow> ufo list \<Rightarrow> sentence list" where
  "NMEA_Export c st e this_aircraft C =
     (if \<not> nmea_l st \<and> \<not> nmea2_l st then []
      else
        case export_list c st e this_aircraft C of
          (order, hp) \<Rightarrow>
            map (\<lambda>(i, n). PFLAA (PFLAA_sentence c this_aircraft i (C ! n)))
              (export_PFLAA c st e this_aircraft C)
            @ [PFLAU_sentence e this_aircraft (length order)
                 (export_hp_final this_aircraft C order hp)])"

text \<open>The identifier a sentence carries.\<close>

fun sentence_id :: "sentence \<Rightarrow> 32 word option" where
  "sentence_id (PFLAA p) = Some (pa_id p)"
| "sentence_id (PFLAU u) = Some (pu_addr u)"
| "sentence_id (PFLAU_no_target tx g pw) = None"

section \<open>The claims' wording, for comparison\<close>

text \<open>
  The bucket of an effective distance, as the specification lists it.
\<close>

definition zone_bucket :: "params \<Rightarrow> real \<Rightarrow> int" where
  "zone_bucket c eff_dist =
     (if eff_dist < real_of_int (ALARM_ZONE_URGENT c) then ALARM_LEVEL_URGENT
      else if eff_dist < real_of_int (ALARM_ZONE_IMPORTANT c) then ALARM_LEVEL_IMPORTANT
      else if eff_dist < real_of_int (ALARM_ZONE_LOW c) then ALARM_LEVEL_LOW
      else if eff_dist < real_of_int (ALARM_ZONE_CLOSE c) then ALARM_LEVEL_CLOSE
      else ALARM_LEVEL_NONE)"

text \<open>
  The distance scorer in the specification's words: no condition on the local aircraft,
  and the effective distance formed from the untruncated distance and adjusted altitude
  difference.
\<close>

definition Alarm_Distance_spec :: "params \<Rightarrow> ufo \<Rightarrow> ufo \<Rightarrow> int" where
  "Alarm_Distance_spec c this_aircraft fop =
     (if distance fop > 2 * real_of_int (ALARM_ZONE_CLOSE c)
         \<or> \<bar>alt_diff fop\<bar> > 2 * real_of_int (VERTICAL_SEPARATION c)
      then ALARM_LEVEL_NONE
      else if \<bar>Adj_alt_diff c this_aircraft fop\<bar> \<ge> real_of_int (VERTICAL_SEPARATION c)
      then ALARM_LEVEL_NONE
      else zone_bucket c
             (distance fop
                + real_of_int (VERTICAL_SLOPE c) * \<bar>Adj_alt_diff c this_aircraft fop\<bar>))"

text \<open>
  The vertical adjustment in the specification's words: the relative vertical speed
  clamped to \<open>\<plusminus>1000\<close> fpm, the rest as in \<open>Adj_alt_diff\<close>.
\<close>

definition Adj_vsr_spec :: "ufo \<Rightarrow> ufo \<Rightarrow> real" where
  "Adj_vsr_spec this_aircraft fop = max (- 1000) (min 1000 (vs fop - vs this_aircraft))"

definition Adj_alt_diff_spec :: "params \<Rightarrow> ufo \<Rightarrow> ufo \<Rightarrow> real" where
  "Adj_alt_diff_spec c this_aircraft fop =
     (let a = alt_diff fop;
          alt_change = Adj_vsr_spec this_aircraft fop * 0.05
      in if a > 0 \<and> alt_change < 0 then
           (let a' = a + alt_change in if a' < 0 then 0 else Adj_slack c a')
         else if a < 0 \<and> alt_change > 0 then
           (let a' = a + alt_change in if a' > 0 then 0 else Adj_slack c a')
         else Adj_slack c a)"

section \<open>Notions used in the proofs\<close>

text \<open>What the sweep does to one slot.\<close>

definition slot_swept :: "params \<Rightarrow> approx_math \<Rightarrow> alarm_fn option \<Rightarrow> ufo \<Rightarrow> ufo \<Rightarrow> ufo" where
  "slot_swept c m A t fop =
     (if addr fop \<noteq> 0 then
        if timestamp t - timestamp fop \<le> ENTRY_EXPIRATION_TIME c then
          (if timestamp t - timestamp fop \<ge> TRAFFIC_VECTOR_UPDATE_INTERVAL c
           then Traffic_Update m A t fop else fop)
        else EmptyFO
      else fop)"

text \<open>The invariant of the loop of the sweep after \<open>n\<close> slots.\<close>

definition scan_inv :: "params \<Rightarrow> approx_math \<Rightarrow> alarm_fn option \<Rightarrow> ufo \<Rightarrow> ufo list \<Rightarrow> nat
   \<Rightarrow> ufo list \<times> nat option \<times> int \<Rightarrow> bool" where
  "scan_inv c m A t C n acc =
     (case acc of (C1, mfop, mx) \<Rightarrow>
        length C1 = length C
        \<and> (\<forall>j < length C. C1 ! j = (if j < n then slot_swept c m A t (C ! j) else C ! j))
        \<and> (case mfop of
              None \<Rightarrow> mx = ALARM_LEVEL_NONE
            | Some j \<Rightarrow> j < n \<and> alarm_level (C1 ! j) = mx
                \<and> alert_level (C1 ! j) < mx \<and> ALARM_LEVEL_CLOSE < mx))"











text \<open>
  What a placement of the packet members has to satisfy: the two arrays have four
  elements, every member lies within one of the six words, no two members share a bit,
  the address is in the first word, which is not encrypted, and the members have the
  widths the code relies on: one bit for the parity, 24 for the address, 19 and 20 for
  latitude and longitude, 13 for the altitude, 10 for the vertical speed, 2 for the scale
  exponent and 8 for each velocity component.
\<close>

definition field_ok :: "bitfield \<Rightarrow> bool" where
  "field_ok f = (fld_word f < 6 \<and> fld_off f + fld_wid f \<le> 32)"

definition fields_disjoint :: "bitfield \<Rightarrow> bitfield \<Rightarrow> bool" where
  "fields_disjoint f g =
     (fld_word f \<noteq> fld_word g \<or> fld_off f + fld_wid f \<le> fld_off g
      \<or> fld_off g + fld_wid g \<le> fld_off f)"

fun pairwise_disjoint :: "bitfield list \<Rightarrow> bool" where
  "pairwise_disjoint [] = True"
| "pairwise_disjoint (f # fs) = (list_all (fields_disjoint f) fs \<and> pairwise_disjoint fs)"

definition layout_fields :: "layout \<Rightarrow> bitfield list" where
  "layout_fields lay =
     [L_parity lay, L_addr lay, L_unk0 lay, L_addr_type lay, L_unk1 lay, L_vs lay, L_unk2 lay,
      L_airborne lay, L_stealth lay, L_no_track lay, L_gps lay, L_aircraft_type lay,
      L_lat lay, L_alt lay, L_lon lay, L_unk3 lay, L_smult lay,
      L_ns lay ! 0, L_ns lay ! 1, L_ns lay ! 2, L_ns lay ! 3,
      L_ew lay ! 0, L_ew lay ! 1, L_ew lay ! 2, L_ew lay ! 3]"

definition layout_ok :: "layout \<Rightarrow> bool" where
  "layout_ok lay =
     (length (L_ns lay) = 4 \<and> length (L_ew lay) = 4
      \<and> list_all field_ok (layout_fields lay)
      \<and> pairwise_disjoint (layout_fields lay)
      \<and> fld_word (L_addr lay) = 0
      \<and> fld_wid (L_parity lay) = 1 \<and> fld_wid (L_addr lay) = 24
      \<and> fld_wid (L_lat lay) = 19 \<and> fld_wid (L_lon lay) = 20 \<and> fld_wid (L_alt lay) = 13
      \<and> fld_wid (L_vs lay) = 10 \<and> fld_wid (L_smult lay) = 2
      \<and> list_all (\<lambda>f. fld_wid f = 8) (L_ns lay @ L_ew lay))"

text \<open>
  A placement for the examples: address and address type in the first word; vertical
  speed, flags, parity, GPS status and aircraft type in the second; latitude and altitude
  in the third; longitude and scale exponent in the fourth; the velocity components in
  the last two.
\<close>

definition ex_layout :: layout where
  "ex_layout = \<lparr>
     L_addr = \<lparr> fld_word = 0, fld_off = 0, fld_wid = 24 \<rparr>,
     L_unk0 = \<lparr> fld_word = 0, fld_off = 24, fld_wid = 4 \<rparr>,
     L_addr_type = \<lparr> fld_word = 0, fld_off = 28, fld_wid = 3 \<rparr>,
     L_unk1 = \<lparr> fld_word = 0, fld_off = 31, fld_wid = 1 \<rparr>,
     L_vs = \<lparr> fld_word = 1, fld_off = 0, fld_wid = 10 \<rparr>,
     L_unk2 = \<lparr> fld_word = 1, fld_off = 10, fld_wid = 2 \<rparr>,
     L_airborne = \<lparr> fld_word = 1, fld_off = 12, fld_wid = 1 \<rparr>,
     L_stealth = \<lparr> fld_word = 1, fld_off = 13, fld_wid = 1 \<rparr>,
     L_no_track = \<lparr> fld_word = 1, fld_off = 14, fld_wid = 1 \<rparr>,
     L_parity = \<lparr> fld_word = 1, fld_off = 15, fld_wid = 1 \<rparr>,
     L_gps = \<lparr> fld_word = 1, fld_off = 16, fld_wid = 12 \<rparr>,
     L_aircraft_type = \<lparr> fld_word = 1, fld_off = 28, fld_wid = 4 \<rparr>,
     L_lat = \<lparr> fld_word = 2, fld_off = 0, fld_wid = 19 \<rparr>,
     L_alt = \<lparr> fld_word = 2, fld_off = 19, fld_wid = 13 \<rparr>,
     L_lon = \<lparr> fld_word = 3, fld_off = 0, fld_wid = 20 \<rparr>,
     L_unk3 = \<lparr> fld_word = 3, fld_off = 20, fld_wid = 10 \<rparr>,
     L_smult = \<lparr> fld_word = 3, fld_off = 30, fld_wid = 2 \<rparr>,
     L_ns = map (\<lambda>i. \<lparr> fld_word = 4, fld_off = 8 * i, fld_wid = 8 \<rparr>) [0, 1, 2, 3],
     L_ew = map (\<lambda>i. \<lparr> fld_word = 5, fld_off = 8 * i, fld_wid = 8 \<rparr>) [0, 1, 2, 3] \<rparr>"

text \<open>Key material for the examples.\<close>

definition ex_keys :: legacy_keys where
  "ex_keys = \<lparr> LEGACY_KEY1 = [0xe43276df, 0xdca83759, 0x9802b8ac, 0x4675a56b,
                                  0xfc78ea65, 0x804b90ea, 0xb76542cd, 0x329dfa32],
                 LEGACY_KEY2 = 0x045d9f3b, LEGACY_KEY3 = 0x87b562f4 \<rparr>"

text \<open>The parity of one word of the packet, and the number of its set bits.\<close>

definition word_parity :: "32 word \<Rightarrow> nat" where
  "word_parity w = sum_list (map parity (map (\<lambda>j. ucast (drop_bit (8 * j) w)) [0 ..< 4]))"

definition popcount :: "32 word \<Rightarrow> nat" where
  "popcount w = (\<Sum>i<32. of_bool (bit w i))"

text \<open>
  The round trip of a packet: what \<open>legacy_decode\<close> makes, at a receiver, of the packet
  that \<open>legacy_encode\<close> built for the aircraft \<open>this_aircraft\<close>.
\<close>

definition decode_encode ::
  "params \<Rightarrow> layout \<Rightarrow> legacy_keys \<Rightarrow> settings_t \<Rightarrow> approx_math \<Rightarrow> 32 word
     \<Rightarrow> (ufo \<Rightarrow> ufo) \<Rightarrow> 32 word list \<Rightarrow> ufo \<Rightarrow> ufo \<Rightarrow> ufo \<Rightarrow> bool \<times> ufo" where
  "decode_encode c lay k st m ms project_this pkt this_aircraft receiver fop =
     legacy_decode c lay k st m ms
       (fst (legacy_encode c lay k st project_this pkt this_aircraft)) receiver fop"

section \<open>Example inputs\<close>

text \<open>Constants with plausible values, used where a statement is evaluated.\<close>

definition ex_params :: params where
  "ex_params = \<lparr> ALARM_ZONE_NONE = 10000, ALARM_ZONE_CLOSE = 1500, ALARM_ZONE_LOW = 1000,
     ALARM_ZONE_IMPORTANT = 700, ALARM_ZONE_URGENT = 400, VERTICAL_SEPARATION = 300,
     VERTICAL_SLOPE = 5, VERTICAL_SLACK = 60, VERTICAL_VISIBILITY_RANGE = 500,
     STEALTH_DISTANCE = 2000, STEALTH_VERTICAL = 300, ENTRY_EXPIRATION_TIME = 30,
     EXPORT_EXPIRATION_TIME = 5, TRAFFIC_VECTOR_UPDATE_INTERVAL = 2,
     MAX_NMEA_OBJECTS = 12, ADDR_TYPE_RANDOM = 0, ADDR_TYPE_ANONYMOUS = 3,
     TRAFFIC_ALERT_SOUND = 1, RF_PROTOCOL_ADSB_UAT = 7, RAW_SIZE = 34,
     GPS_MPS_PER_KNOT = 0.51444444, GPS_FEET_PER_METER = 3.2808399,
     RF_PROTOCOL_LEGACY = 0 \<rparr>"

definition ex_math :: approx_math where
  "ex_math = \<lparr> CosLat = (\<lambda>lat. 1), atan2_approx = (\<lambda>y x. 0),
     approxHypotenuse = (\<lambda>x y. max \<bar>x\<bar> \<bar>y\<bar>) \<rparr>"

text \<open>The local aircraft with a previous position sample, and without one.\<close>

definition ex_this :: ufo where
  "ex_this = EmptyFO\<lparr> addr := 0xDD0001, prevtime_ms := 5000, gnsstime_ms := 7000,
     timestamp := 100 \<rparr>"

definition ex_this_first :: ufo where
  "ex_this_first = ex_this\<lparr> prevtime_ms := 0 \<rparr>"

text \<open>Targets for the distance scorer and the vertical adjustment.\<close>

definition ex_near :: ufo where
  "ex_near = EmptyFO\<lparr> addr := 0xDD0002, distance := 100, alt_diff := 0 \<rparr>"

definition ex_fraction :: ufo where
  "ex_fraction = EmptyFO\<lparr> addr := 0xDD0002, distance := 399.5, alt_diff := 60.9 \<rparr>"

definition ex_climber :: ufo where
  "ex_climber = EmptyFO\<lparr> addr := 0xDD0002, distance := 100, alt_diff := - 200, vs := 2000 \<rparr>"

definition ex_sinker :: ufo where
  "ex_sinker = EmptyFO\<lparr> addr := 0xDD0002, altitude := 1200, alt_diff := 200, vs := - 600 \<rparr>"

text \<open>A table with one tracked aircraft, a received packet for it, and the state after.\<close>

definition ex_decoder :: decoder where
  "ex_decoder rx this_aircraft fop =
     (True, fop\<lparr> addr := 0xDD0002, altitude := 100, course := 180,
                 timestamp := timestamp this_aircraft, gnsstime_ms := 9000 \<rparr>)"

definition ex_tracked :: ufo where
  "ex_tracked = EmptyFO\<lparr> addr := 0xDD0002, altitude := 260, course := 90, prevcourse := 45,
     gnsstime_ms := 3000, prevtime_ms := 1000, timestamp := 98, alarm_level := 2,
     alert_level := 3, alert := 1 \<rparr>"

definition ex_settings :: settings_t where
  "ex_settings = \<lparr> ignore_id = 0xABCDEF, follow_id = 0, id_method = 2, nmea_l = True,
     nmea2_l = False \<rparr>"

definition ex_sys :: sys where
  "ex_sys = \<lparr> ThisAircraft = ex_this, Container = [EmptyFO, ex_tracked, EmptyFO],
     fo = EmptyFO, settings = ex_settings \<rparr>"

definition ex_rx :: rx_env where
  "ex_rx = \<lparr> RxBuffer = [1, 2, 3], TxBuffer = [4, 5, 6], rx_size = 3, RF_last_rssi = - 70,
     now = 100, millis = 9000 \<rparr>"

definition ex_parsed :: sys where
  "ex_parsed =
     ParseData ex_params ex_math (Some (Alarm_Distance ex_params)) (Some ex_decoder) ex_rx ex_sys"

text \<open>
  A track at the position of the local aircraft and 1000 m high, and three states of the
  local aircraft, two seconds apart, at heights 1000 m, 700 m and 850 m: the distance
  scorer gives the levels URGENT, CLOSE and IMPORTANT.
\<close>

definition ex_target :: ufo where
  "ex_target = EmptyFO\<lparr> addr := 0xDD0002, altitude := 1000, timestamp := 98 \<rparr>"

definition ex_alarm :: "alarm_fn option" where
  "ex_alarm = Some (Alarm_Distance ex_params)"

definition ex_this1 :: ufo where
  "ex_this1 = ex_this\<lparr> altitude := 1000, timestamp := 100 \<rparr>"

definition ex_this2 :: ufo where
  "ex_this2 = ex_this\<lparr> altitude := 700, timestamp := 102 \<rparr>"

definition ex_this3 :: ufo where
  "ex_this3 = ex_this\<lparr> altitude := 850, timestamp := 104 \<rparr>"

definition ex_C0 :: "ufo list" where
  "ex_C0 = [EmptyFO, ex_target]"

definition ex_C1 :: "ufo list" where
  "ex_C1 = [EmptyFO, ex_target\<lparr> alt_diff := 0, alarm_level := 4, alert_level := 5, alert := 1 \<rparr>]"

definition ex_C2 :: "ufo list" where
  "ex_C2 = [EmptyFO, ex_target\<lparr> alt_diff := 300, alarm_level := 1, alert_level := 2, alert := 1 \<rparr>]"

definition ex_C3 :: "ufo list" where
  "ex_C3 = [EmptyFO, ex_target\<lparr> alt_diff := 150, alarm_level := 3, alert_level := 4, alert := 1 \<rparr>]"

text \<open>
  Tables for the export: a stealth target in the second slot; a near target without alarm
  before a farther one at alarm level IMPORTANT.
\<close>

definition ex_env :: export_env where
  "ex_env = \<lparr> this_moment = 100, has_Fix = True, tx_off = False, power_status = 0 \<rparr>"

definition ex_stealthy :: ufo where
  "ex_stealthy = EmptyFO\<lparr> addr := 0xDD0002, addr_type := 2, stealth := True, timestamp := 99,
     distance := 500, adj_distance := 500, alarm_level := 3 \<rparr>"

definition ex_T_stealth :: "ufo list" where
  "ex_T_stealth = [EmptyFO, ex_stealthy]"

definition ex_nearby :: ufo where
  "ex_nearby = EmptyFO\<lparr> addr := 0xDD0003, addr_type := 2, timestamp := 99,
     distance := 100, adj_distance := 100, alarm_level := 0 \<rparr>"

definition ex_threat :: ufo where
  "ex_threat = EmptyFO\<lparr> addr := 0xDD0004, addr_type := 2, timestamp := 99,
     distance := 500, adj_distance := 500, alarm_level := 3 \<rparr>"

definition ex_T_unsorted :: "ufo list" where
  "ex_T_unsorted = [ex_nearby, ex_threat]"


definition ex_close :: ufo where
  "ex_close = EmptyFO\<lparr> addr := 0xDD0006, addr_type := 2, timestamp := 99,
     distance := 200, adj_distance := 200, alarm_level := 3 \<rparr>"



definition ex_follow_stealthy :: settings_t where
  "ex_follow_stealthy = ex_settings\<lparr> follow_id := 0xDD0002 \<rparr>"

definition ex_T_followed :: "ufo list" where
  "ex_T_followed = [ex_stealthy, ex_close]"

definition ex_T_renamed :: "ufo list" where
  "ex_T_renamed = [ex_stealthy\<lparr> addr := 0xABC123 \<rparr>, ex_close]"

text \<open>
  A table of twelve tracks at alarm level CLOSE, each 100 m farther than the one before:
  as many as \<open>MAX_NMEA_OBJECTS\<close> of the example constants.
\<close>

definition ex_row :: "nat \<Rightarrow> ufo" where
  "ex_row k = EmptyFO\<lparr> addr := 0xDD0100 + of_nat k, addr_type := 2, timestamp := 99,
     distance := 100 * (1 + real k), adj_distance := 100 * (1 + real k), alarm_level := 1 \<rparr>"

definition ex_T_full :: "ufo list" where
  "ex_T_full = [ex_row 0, ex_row 1, ex_row 2, ex_row 3, ex_row 4, ex_row 5, ex_row 6,
     ex_row 7, ex_row 8, ex_row 9, ex_row 10, ex_row 11]"

text \<open>
  A fast aircraft in a weak climb (250 kt, 138 fpm), the same aircraft at an altitude of
  -100 m, at a speed beyond the range of 16 bits, and at a latitude that is a \<open>float\<close> but
  no multiple of \<open>128e-7\<close> degrees, the packet buffer before encoding, a projection that leaves the record as it
  is, and a receiver 0.01 degrees away.
\<close>

definition ex_sender :: ufo where
  "ex_sender = EmptyFO\<lparr> addr := 0xDD0007, latitude := 48, longitude := 8, altitude := 1000,
     geoid_separation := 48, speed := 250, vs := 138, aircraft_type := 1, airborne := True,
     timestamp := 1700000000, fla_ns := [514, 514, 514, 514], fla_ew := [0, 0, 0, 0] \<rparr>"


definition ex_sender_fast :: ufo where
  "ex_sender_fast = ex_sender\<lparr> speed := 31880 \<rparr>"

definition ex_sender_fine :: ufo where
  "ex_sender_fine = ex_sender\<lparr> latitude := 48 + 5 / 262144 \<rparr>"

definition ex_receiver :: ufo where
  "ex_receiver = EmptyFO\<lparr> addr := 0xDD0008, latitude := 48.01, longitude := 8.01,
     altitude := 900, geoid_separation := 48, timestamp := 1700000000 \<rparr>"

definition ex_buffer :: "32 word list" where
  "ex_buffer = [0, 0, 0, 0, 0, 0]"

definition ex_project :: "ufo \<Rightarrow> ufo" where
  "ex_project this_aircraft = this_aircraft"


section \<open>Properties of the distance scorer\<close>

lemmas ALARM_LEVEL_defs =
  ALARM_LEVEL_NONE_def ALARM_LEVEL_CLOSE_def ALARM_LEVEL_LOW_def
  ALARM_LEVEL_IMPORTANT_def ALARM_LEVEL_URGENT_def

lemmas ex_scorer_defs =
  Adj_alt_diff_def Adj_vsr_def Adj_slack_def c_int_def ex_params_def ex_this_def
  ex_this_first_def EmptyFO_def

lemma c_int_abs: "\<bar>c_int x\<bar> = \<lfloor>\<bar>x\<bar>\<rfloor>"
proof (cases "0 \<le> x")
  case True
  then show ?thesis by (simp add: c_int_def)
next
  case False
  then have "\<lceil>x\<rceil> \<le> 0" by (simp add: ceiling_le_iff)
  with False show ?thesis by (simp add: c_int_def ceiling_def)
qed

lemma c_int_abs_less: "\<bar>c_int x\<bar> < k \<longleftrightarrow> \<bar>x\<bar> < real_of_int k"
  by (simp add: c_int_abs floor_less_iff)

lemma c_int_greater: "0 \<le> k \<Longrightarrow> k < c_int x \<longleftrightarrow> real_of_int k + 1 \<le> x"
  unfolding c_int_def by (auto simp: less_floor_iff less_ceiling_iff)

lemma zone_bucket_of_int:
  "zone_bucket c (real_of_int k) =
     (if k < ALARM_ZONE_URGENT c then ALARM_LEVEL_URGENT
      else if k < ALARM_ZONE_IMPORTANT c then ALARM_LEVEL_IMPORTANT
      else if k < ALARM_ZONE_LOW c then ALARM_LEVEL_LOW
      else if k < ALARM_ZONE_CLOSE c then ALARM_LEVEL_CLOSE
      else ALARM_LEVEL_NONE)"
  by (simp only: zone_bucket_def of_int_less_iff)

lemma zone_bucket_far:
  assumes "ALARM_ZONE_URGENT c \<le> k" "ALARM_ZONE_IMPORTANT c \<le> k"
    and "ALARM_ZONE_LOW c \<le> k" "ALARM_ZONE_CLOSE c \<le> k"
    and "k \<le> d"
  shows "zone_bucket c (real_of_int d) = ALARM_LEVEL_NONE"
  using assms unfolding zone_bucket_of_int by auto

text \<open>
  C9. When the local aircraft has no previous position sample (\<open>prevtime_ms = 0\<close>),
  \<open>Alarm_Distance\<close> returns \<open>ALARM_LEVEL_NONE\<close>, however close the other aircraft is.
\<close>

theorem Alarm_Distance_no_previous_sample:
  "prevtime_ms this_aircraft = 0 \<Longrightarrow> Alarm_Distance c this_aircraft fop = ALARM_LEVEL_NONE"
  by (simp add: Alarm_Distance_def)

theorem Alarm_Distance_no_previous_sample_witness:
  "prevtime_ms ex_this_first = 0 \<and> distance ex_near = 100 \<and> alt_diff ex_near = 0
   \<and> Alarm_Distance ex_params ex_this_first ex_near = ALARM_LEVEL_NONE"
proof -
  have h: "prevtime_ms ex_this_first = 0"
    by (simp add: ex_this_first_def)
  show ?thesis
    using h Alarm_Distance_no_previous_sample [OF h, of ex_params ex_near]
    by (simp add: ex_near_def EmptyFO_def)
qed

text \<open>
  C5, as stated, fails twice. The scorer answers \<open>NONE\<close> for a target 100 m away at the
  same height when the local aircraft has no previous sample, where the claim's rule gives
  \<open>URGENT\<close>; and it truncates the distance and the adjusted altitude difference to integers
  before adding them, so that a target at 399.5 m and 60.9 m above scores \<open>URGENT\<close> where
  the claim's untruncated sum 404 gives \<open>IMPORTANT\<close>.
\<close>

theorem Alarm_Distance_spec_counterexample:
  "Alarm_Distance ex_params ex_this_first ex_near = ALARM_LEVEL_NONE
   \<and> Alarm_Distance_spec ex_params ex_this_first ex_near = ALARM_LEVEL_URGENT
   \<and> Alarm_Distance ex_params ex_this ex_fraction = ALARM_LEVEL_URGENT
   \<and> Alarm_Distance_spec ex_params ex_this ex_fraction = ALARM_LEVEL_IMPORTANT"
  by (simp add: Alarm_Distance_def Alarm_Distance_spec_def zone_bucket_def ex_scorer_defs
      ex_near_def ex_fraction_def)

text \<open>
  C5, amended. When the local aircraft has a previous position sample and the zone radii
  are nested (\<open>URGENT \<le> IMPORTANT \<le> LOW \<le> CLOSE\<close>, none negative, slope not negative),
  \<open>Alarm_Distance\<close> returns \<open>NONE\<close> when \<open>distance > 2 \<times> ALARM_ZONE_CLOSE\<close> or
  \<open>|alt_diff| > 2 \<times> VERTICAL_SEPARATION\<close>, returns \<open>NONE\<close> when
  \<open>|adj_alt_diff| \<ge> VERTICAL_SEPARATION\<close>, and otherwise returns the bucket of the
  effective distance formed from the integer parts:
  \<open>(int) distance + VERTICAL_SLOPE \<times> |(int) adj_alt_diff|\<close>.
\<close>

theorem Alarm_Distance_buckets:
  assumes prev: "prevtime_ms this_aircraft \<noteq> 0"
    and slope: "0 \<le> VERTICAL_SLOPE c"
    and zones: "ALARM_ZONE_URGENT c \<le> ALARM_ZONE_IMPORTANT c"
      "ALARM_ZONE_IMPORTANT c \<le> ALARM_ZONE_LOW c"
      "ALARM_ZONE_LOW c \<le> ALARM_ZONE_CLOSE c" "0 \<le> ALARM_ZONE_CLOSE c"
  shows "Alarm_Distance c this_aircraft fop =
     (if distance fop > 2 * real_of_int (ALARM_ZONE_CLOSE c)
         \<or> \<bar>alt_diff fop\<bar> > 2 * real_of_int (VERTICAL_SEPARATION c)
      then ALARM_LEVEL_NONE
      else if \<bar>Adj_alt_diff c this_aircraft fop\<bar> \<ge> real_of_int (VERTICAL_SEPARATION c)
      then ALARM_LEVEL_NONE
      else zone_bucket c
             (real_of_int (c_int (distance fop)
                + VERTICAL_SLOPE c * \<bar>c_int (Adj_alt_diff c this_aircraft fop)\<bar>)))"
proof -
  let ?zc = "ALARM_ZONE_CLOSE c"
  let ?d = "c_int (distance fop)"
  let ?a = "\<bar>c_int (Adj_alt_diff c this_aircraft fop)\<bar>"
  have sep: "?a < VERTICAL_SEPARATION c
      \<longleftrightarrow> \<not> \<bar>Adj_alt_diff c this_aircraft fop\<bar> \<ge> real_of_int (VERTICAL_SEPARATION c)"
    by (simp add: c_int_abs_less not_le)
  have bucket:
    "(let d' = VERTICAL_SLOPE c * ?a + ?d
      in if d' < ALARM_ZONE_URGENT c then ALARM_LEVEL_URGENT
         else if d' < ALARM_ZONE_IMPORTANT c then ALARM_LEVEL_IMPORTANT
         else if d' < ALARM_ZONE_LOW c then ALARM_LEVEL_LOW
         else if d' < ALARM_ZONE_CLOSE c then ALARM_LEVEL_CLOSE
         else ALARM_LEVEL_NONE)
     = zone_bucket c (real_of_int (?d + VERTICAL_SLOPE c * ?a))"
    by (simp only: zone_bucket_of_int Let_def add.commute)
  show ?thesis
  proof (cases "real_of_int ?d > 2.0 * real_of_int ?zc")
    case True
    then have "2 * ?zc < ?d" by linarith
    then have "real_of_int (2 * ?zc) + 1 \<le> distance fop"
      using zones by (simp add: c_int_greater)
    then have "distance fop > 2 * real_of_int ?zc" by simp
    with True prev show ?thesis
      by (simp add: Alarm_Distance_def Let_def)
  next
    case False
    note nd = this
    show ?thesis
    proof (cases "distance fop > 2 * real_of_int ?zc")
      case far: True
      then have "0 \<le> distance fop" using zones by linarith
      then have "?d = \<lfloor>distance fop\<rfloor>" by (simp add: c_int_def)
      moreover have "2 * ?zc \<le> \<lfloor>distance fop\<rfloor>" using far by (simp add: le_floor_iff)
      ultimately have "2 * ?zc \<le> ?d" by simp
      moreover have "0 \<le> VERTICAL_SLOPE c * ?a" using slope by simp
      ultimately have ge: "2 * ?zc \<le> ?d + VERTICAL_SLOPE c * ?a" by linarith
      have "zone_bucket c (real_of_int (?d + VERTICAL_SLOPE c * ?a)) = ALARM_LEVEL_NONE"
        by (rule zone_bucket_far [OF _ _ _ _ ge]) (use zones in linarith)+
      with far nd prev bucket show ?thesis
        by (simp add: Alarm_Distance_def Let_def del: of_int_add of_int_mult)
    next
      case near: False
      with nd prev sep bucket show ?thesis
        by (simp add: Alarm_Distance_def Let_def del: of_int_add of_int_mult)
    qed
  qed
qed

theorem Alarm_Distance_buckets_witness:
  "prevtime_ms ex_this \<noteq> 0 \<and> 0 \<le> VERTICAL_SLOPE ex_params
   \<and> ALARM_ZONE_URGENT ex_params \<le> ALARM_ZONE_IMPORTANT ex_params
   \<and> ALARM_ZONE_IMPORTANT ex_params \<le> ALARM_ZONE_LOW ex_params
   \<and> ALARM_ZONE_LOW ex_params \<le> ALARM_ZONE_CLOSE ex_params
   \<and> 0 \<le> ALARM_ZONE_CLOSE ex_params
   \<and> Alarm_Distance ex_params ex_this ex_fraction = zone_bucket ex_params 399
   \<and> zone_bucket ex_params 399 = ALARM_LEVEL_URGENT"
proof -
  have h: "prevtime_ms ex_this \<noteq> 0" "0 \<le> VERTICAL_SLOPE ex_params"
    "ALARM_ZONE_URGENT ex_params \<le> ALARM_ZONE_IMPORTANT ex_params"
    "ALARM_ZONE_IMPORTANT ex_params \<le> ALARM_ZONE_LOW ex_params"
    "ALARM_ZONE_LOW ex_params \<le> ALARM_ZONE_CLOSE ex_params"
    "0 \<le> ALARM_ZONE_CLOSE ex_params"
    by (simp_all add: ex_this_def ex_params_def)
  have adj: "Adj_alt_diff ex_params ex_this ex_fraction = 0.9"
    by (simp add: ex_scorer_defs ex_fraction_def)
  have "Alarm_Distance ex_params ex_this ex_fraction = zone_bucket ex_params 399"
    unfolding Alarm_Distance_buckets [OF h, of ex_fraction] adj
    by (simp add: ex_fraction_def ex_params_def EmptyFO_def c_int_def)
  moreover have "zone_bucket ex_params 399 = ALARM_LEVEL_URGENT"
    by (simp add: zone_bucket_def ex_params_def)
  ultimately show ?thesis using h by simp
qed

section \<open>Properties of the vertical adjustment\<close>

lemma Adj_alt_diff_le: "0 \<le> VERTICAL_SLACK c \<Longrightarrow> \<bar>Adj_alt_diff c t f\<bar> \<le> \<bar>alt_diff f\<bar>"
  unfolding Adj_alt_diff_def Adj_slack_def Adj_vsr_def Let_def
  by (auto split: if_splits)

lemma Traffic_Update_alt_diff:
  "alt_diff (Traffic_Update m A t f) = altitude f - altitude t"
  by (simp add: Traffic_Update_def Let_def split: option.split)

text \<open>
  C6. The magnitude of the adjusted altitude difference never exceeds that of the raw
  one, \<open>|Adj_alt_diff self other| \<le> |alt_diff|\<close>, and \<open>alt_diff\<close> is
  \<open>other.altitude - self.altitude\<close> as \<open>Traffic_Update\<close> stores it. The dead band
  \<open>VERTICAL_SLACK\<close> is a width, so it is not negative.
\<close>

theorem Adj_alt_diff_monotone:
  assumes "0 \<le> VERTICAL_SLACK c"
  shows "\<bar>Adj_alt_diff c this_aircraft fop\<bar> \<le> \<bar>alt_diff fop\<bar>
    \<and> \<bar>Adj_alt_diff c this_aircraft (Traffic_Update m A this_aircraft fop)\<bar>
         \<le> \<bar>altitude fop - altitude this_aircraft\<bar>"
  using Adj_alt_diff_le [OF assms, of this_aircraft fop]
    Adj_alt_diff_le [OF assms, of this_aircraft "Traffic_Update m A this_aircraft fop"]
  by (simp add: Traffic_Update_alt_diff)

theorem Adj_alt_diff_monotone_witness:
  "0 \<le> VERTICAL_SLACK ex_params
   \<and> Adj_alt_diff ex_params ex_this ex_sinker = 110
   \<and> alt_diff ex_sinker = 200
   \<and> \<bar>Adj_alt_diff ex_params ex_this ex_sinker\<bar> \<le> \<bar>alt_diff ex_sinker\<bar>
   \<and> \<bar>Adj_alt_diff ex_params ex_this
          (Traffic_Update ex_math None ex_this ex_sinker)\<bar>
         \<le> \<bar>altitude ex_sinker - altitude ex_this\<bar>"
proof -
  have h: "0 \<le> VERTICAL_SLACK ex_params"
    by (simp add: ex_params_def)
  have "Adj_alt_diff ex_params ex_this ex_sinker = 110" "alt_diff ex_sinker = 200"
    by (simp_all add: ex_scorer_defs ex_sinker_def)
  then show ?thesis
    using h Adj_alt_diff_monotone [OF h, of ex_this ex_sinker ex_math None]
    by simp
qed

text \<open>
  C7, as stated, fails: a relative vertical speed beyond \<open>\<plusminus>1000\<close> fpm is not clamped
  to \<open>\<plusminus>1000\<close>. For a target 200 m below that climbs at 2000 fpm relative to the
  local aircraft the value used is 0, and the result is -140 where clamping gives -90.
\<close>

theorem Adj_vsr_clamp_counterexample:
  "\<bar>vs ex_climber - vs ex_this\<bar> > 1000
   \<and> Adj_vsr ex_this ex_climber = 0
   \<and> Adj_vsr_spec ex_this ex_climber = 1000
   \<and> Adj_alt_diff ex_params ex_this ex_climber = - 140
   \<and> Adj_alt_diff_spec ex_params ex_this ex_climber = - 90"
  by (simp add: Adj_alt_diff_spec_def Adj_vsr_spec_def ex_scorer_defs ex_climber_def)

text \<open>
  C7, amended. The relative vertical speed \<open>vsr = other.vs - self.vs\<close> is used as it is
  while \<open>|vsr| \<le> 1000\<close>; for every input with \<open>|vsr| > 1000\<close> the value used is 0 (the
  data is ignored as implausible), so that the result is the dead band applied to the raw
  altitude difference.
\<close>

theorem Adj_vsr_implausible_ignored:
  "Adj_vsr this_aircraft fop =
     (if \<bar>vs fop - vs this_aircraft\<bar> > 1000 then 0 else vs fop - vs this_aircraft)
   \<and> (\<bar>vs fop - vs this_aircraft\<bar> > 1000
        \<longrightarrow> Adj_alt_diff c this_aircraft fop = Adj_slack c (alt_diff fop))"
  by (simp add: Adj_vsr_def Adj_alt_diff_def Let_def)

theorem Adj_vsr_implausible_ignored_witness:
  "\<bar>vs ex_climber - vs ex_this\<bar> > 1000
   \<and> Adj_vsr ex_this ex_climber = 0
   \<and> Adj_alt_diff ex_params ex_this ex_climber = Adj_slack ex_params (- 200)"
proof -
  have h: "\<bar>vs ex_climber - vs ex_this\<bar> > 1000" "alt_diff ex_climber = - 200"
    by (simp_all add: ex_climber_def ex_this_def EmptyFO_def)
  show ?thesis
    using h Adj_vsr_implausible_ignored [of ex_this ex_climber ex_params]
    by simp
qed

section \<open>Properties of the traffic table\<close>

lemma first_ndx_Some:
  "first_ndx P xs = Some i \<Longrightarrow> i < length xs \<and> P (xs ! i) \<and> (\<forall>j<i. \<not> P (xs ! j))"
proof (induction xs arbitrary: i)
  case Nil
  then show ?case by simp
next
  case (Cons x xs)
  show ?case
  proof (cases "P x")
    case True
    with Cons.prems show ?thesis by simp
  next
    case False
    with Cons.prems obtain k where k: "first_ndx P xs = Some k" "i = Suc k"
      by auto
    from Cons.IH [OF k(1)] False k(2) show ?thesis
      by (auto simp: less_Suc_eq_0_disj)
  qed
qed

lemma first_ndx_None: "first_ndx P xs = None \<Longrightarrow> j < length xs \<Longrightarrow> \<not> P (xs ! j)"
  by (induction xs arbitrary: j) (auto split: if_splits simp: nth_Cons split: nat.splits)

lemma Traffic_Update_addr: "addr (Traffic_Update m A t f) = addr f"
  by (simp add: Traffic_Update_def Let_def split: option.split)

lemmas ex_table_defs =
  ex_sys_def ex_rx_def ex_decoder_def ex_settings_def ex_tracked_def
  ex_params_def ex_this_def ex_math_def EmptyFO_def

text \<open>
  C4, as stated, fails: \<open>prevcourse\<close> and \<open>prevtime_ms\<close> do not keep the values they held
  in the slot. A slot with course 90, previous course 45, fix time 3000 ms and previous fix
  time 1000 ms has previous course 90 and previous fix time 3000 ms after the update.
\<close>

theorem ParseData_history_counterexample:
  "prevcourse (Container ex_sys ! 1) = 45 \<and> course (Container ex_sys ! 1) = 90
   \<and> prevtime_ms (Container ex_sys ! 1) = 1000 \<and> gnsstime_ms (Container ex_sys ! 1) = 3000
   \<and> prevcourse (Container ex_parsed ! 1) = 90
   \<and> prevtime_ms (Container ex_parsed ! 1) = 3000"
  by (simp add: ex_parsed_def ParseData_def ParseData_store_def Traffic_Update_def Let_def
      ex_table_defs)

text \<open>
  C4, amended. When \<open>ParseData\<close> decodes a valid frame (not a loopback, not the ignored
  and not the own address) whose address equals that of a table slot, the first such slot
  \<open>i\<close> is overwritten with the incoming record, which is the decoded record with the
  received signal strength after \<open>Traffic_Update\<close>, except for four fields: \<open>alert\<close> and
  \<open>alert_level\<close> keep the values they held in the slot, \<open>prevcourse\<close> gets the course and
  \<open>prevtime_ms\<close> the fix time \<open>gnsstime_ms\<close> that the slot held before the update. Every
  other field comes from the incoming record, and no other slot changes.
\<close>

theorem ParseData_refresh:
  assumes rx: "take (rx_size e) (RxBuffer e) \<noteq> take (rx_size e) (TxBuffer e)"
    and dec: "protocol_decode = Some dec"
      "dec (RxBuffer e) (ThisAircraft s) EmptyFO = (True, fo1)"
    and ids: "addr fo1 \<noteq> ignore_id (settings s)" "addr fo1 \<noteq> addr (ThisAircraft s)"
    and slot: "first_ndx (\<lambda>u. addr u = addr fo1) (Container s) = Some i"
    and inc: "incoming =
      Traffic_Update m Alarm_Level (ThisAircraft s) (fo1\<lparr> rssi := RF_last_rssi e \<rparr>)"
    and old: "old = Container s ! i"
    and new: "C' = Container (ParseData c m Alarm_Level protocol_decode e s)"
  shows "C' = (Container s)[i := incoming\<lparr> prevcourse := course old,
                                           prevtime_ms := gnsstime_ms old,
                                           alert := alert old,
                                           alert_level := alert_level old \<rparr>]
    \<and> i < length (Container s) \<and> addr old = addr fo1
    \<and> alert (C' ! i) = alert old \<and> alert_level (C' ! i) = alert_level old
    \<and> prevcourse (C' ! i) = course old \<and> prevtime_ms (C' ! i) = gnsstime_ms old
    \<and> (\<forall>j. j \<noteq> i \<longrightarrow> C' ! j = Container s ! j) \<and> length C' = length (Container s)"
proof -
  from first_ndx_Some [OF slot] have i: "i < length (Container s)" "addr old = addr fo1"
    by (simp_all add: old)
  have a: "addr incoming = addr fo1"
    by (simp add: inc Traffic_Update_addr)
  have "C' = (Container s)[i := incoming\<lparr> prevcourse := course old,
                                           prevtime_ms := gnsstime_ms old,
                                           alert := alert old,
                                           alert_level := alert_level old \<rparr>]"
    using rx dec ids slot
    by (simp add: new ParseData_def ParseData_store_def Let_def a [unfolded inc] inc old)
  with i show ?thesis by simp
qed

theorem ParseData_refresh_witness:
  "take (rx_size ex_rx) (RxBuffer ex_rx) \<noteq> take (rx_size ex_rx) (TxBuffer ex_rx)
   \<and> ex_decoder (RxBuffer ex_rx) (ThisAircraft ex_sys) EmptyFO
       = (True, EmptyFO\<lparr> addr := 0xDD0002, altitude := 100, course := 180,
                         timestamp := 100, gnsstime_ms := 9000 \<rparr>)
   \<and> first_ndx (\<lambda>u. addr u = 0xDD0002) (Container ex_sys) = Some 1
   \<and> alert (Container ex_parsed ! 1) = 1 \<and> alert_level (Container ex_parsed ! 1) = 3
   \<and> prevcourse (Container ex_parsed ! 1) = 90
   \<and> prevtime_ms (Container ex_parsed ! 1) = 3000
   \<and> course (Container ex_parsed ! 1) = 180 \<and> rssi (Container ex_parsed ! 1) = - 70
   \<and> Container ex_parsed ! 0 = EmptyFO \<and> Container ex_parsed ! 2 = EmptyFO
   \<and> length (Container ex_parsed) = 3"
proof -
  let ?fo1 = "EmptyFO\<lparr> addr := 0xDD0002, altitude := 100, course := 180,
                         timestamp := 100, gnsstime_ms := 9000 \<rparr>"
  have rx: "take (rx_size ex_rx) (RxBuffer ex_rx) \<noteq> take (rx_size ex_rx) (TxBuffer ex_rx)"
    by (simp add: ex_rx_def)
  have dec: "ex_decoder (RxBuffer ex_rx) (ThisAircraft ex_sys) EmptyFO = (True, ?fo1)"
    by (simp add: ex_decoder_def ex_sys_def ex_this_def EmptyFO_def)
  have ids: "addr ?fo1 \<noteq> ignore_id (settings ex_sys)" "addr ?fo1 \<noteq> addr (ThisAircraft ex_sys)"
    by (simp_all add: ex_sys_def ex_settings_def ex_this_def)
  have slot: "first_ndx (\<lambda>u. addr u = addr ?fo1) (Container ex_sys) = Some 1"
    by (simp add: ex_sys_def ex_tracked_def EmptyFO_def)
  have old: "alert (Container ex_sys ! 1) = 1" "alert_level (Container ex_sys ! 1) = 3"
    "course (Container ex_sys ! 1) = 90" "gnsstime_ms (Container ex_sys ! 1) = 3000"
    "Container ex_sys ! 0 = EmptyFO" "Container ex_sys ! 2 = EmptyFO"
    "length (Container ex_sys) = 3"
    by (simp_all add: ex_sys_def ex_tracked_def)
  have inc: "course (Traffic_Update ex_math ex_alarm (ThisAircraft ex_sys)
                      (?fo1\<lparr> rssi := RF_last_rssi ex_rx \<rparr>)) = 180"
    "rssi (Traffic_Update ex_math ex_alarm (ThisAircraft ex_sys)
                      (?fo1\<lparr> rssi := RF_last_rssi ex_rx \<rparr>)) = - 70"
    by (simp_all add: Traffic_Update_def Let_def ex_alarm_def ex_rx_def)
  from ParseData_refresh [where e = ex_rx and s = ex_sys and dec = ex_decoder
      and protocol_decode = "Some ex_decoder" and ?fo1.0 = ?fo1 and i = 1 and m = ex_math
      and Alarm_Level = ex_alarm and c = ex_params, OF rx refl dec ids slot refl refl refl]
  show ?thesis
    using rx dec slot old inc
    by (simp add: ex_parsed_def ex_alarm_def)
qed

section \<open>Properties of the sweep and the alert hysteresis\<close>

lemma Traffic_loop_slot_eq:
  "Traffic_loop_slot c m A t (C1, mfop, mx) n =
     (let sw = slot_swept c m A t (C1 ! n)
      in (C1[n := sw],
          if addr (C1 ! n) \<noteq> 0
             \<and> timestamp t - timestamp (C1 ! n) \<le> ENTRY_EXPIRATION_TIME c
             \<and> alarm_level sw > alert_level sw \<and> alarm_level sw > ALARM_LEVEL_CLOSE
             \<and> alarm_level sw > mx
          then (Some n, alarm_level sw) else (mfop, mx)))"
  by (simp add: Traffic_loop_slot_def slot_swept_def Let_def)

lemma scan_inv_step:
  assumes "scan_inv c m A t C n acc" "n < length C"
  shows "scan_inv c m A t C (Suc n) (Traffic_loop_slot c m A t acc n)"
proof -
  obtain C1 mfop mx where acc: "acc = (C1, mfop, mx)" by (cases acc)
  from assms(1) have len: "length C1 = length C"
    and slots: "\<And>j. j < length C \<Longrightarrow> C1 ! j = (if j < n then slot_swept c m A t (C ! j) else C ! j)"
    and mf: "(case mfop of
              None \<Rightarrow> mx = ALARM_LEVEL_NONE
            | Some j \<Rightarrow> j < n \<and> alarm_level (C1 ! j) = mx
                \<and> alert_level (C1 ! j) < mx \<and> ALARM_LEVEL_CLOSE < mx)"
    by (simp_all add: scan_inv_def acc)
  have cur: "C1 ! n = C ! n" using slots [OF assms(2)] by simp
  let ?sw = "slot_swept c m A t (C ! n)"
  let ?C2 = "C1[n := ?sw]"
  have n: "n < length C1" using len assms(2) by simp
  have slots2: "?C2 ! j = (if j < Suc n then slot_swept c m A t (C ! j) else C ! j)"
    if "j < length C" for j
    using slots [OF that] n by (cases "j = n") (auto simp: nth_list_update)
  show ?thesis
  proof (cases "addr (C ! n) \<noteq> 0
             \<and> timestamp t - timestamp (C ! n) \<le> ENTRY_EXPIRATION_TIME c
             \<and> alarm_level ?sw > alert_level ?sw \<and> alarm_level ?sw > ALARM_LEVEL_CLOSE
             \<and> alarm_level ?sw > mx")
    case True
    then have step: "Traffic_loop_slot c m A t acc n = (?C2, Some n, alarm_level ?sw)"
      by (simp add: acc Traffic_loop_slot_eq cur Let_def)
    from True n have "alarm_level (?C2 ! n) = alarm_level ?sw \<and> alert_level (?C2 ! n) < alarm_level ?sw
        \<and> ALARM_LEVEL_CLOSE < alarm_level ?sw"
      by simp
    with slots2 len show ?thesis
      unfolding step scan_inv_def by simp
  next
    case False
    then have step: "Traffic_loop_slot c m A t acc n = (?C2, mfop, mx)"
      by (simp add: acc Traffic_loop_slot_eq cur Let_def)
    have "(case mfop of
              None \<Rightarrow> mx = ALARM_LEVEL_NONE
            | Some j \<Rightarrow> j < Suc n \<and> alarm_level (?C2 ! j) = mx
                \<and> alert_level (?C2 ! j) < mx \<and> ALARM_LEVEL_CLOSE < mx)"
      using mf by (cases mfop) (auto simp: nth_list_update)
    with slots2 len show ?thesis
      unfolding step scan_inv_def by simp
  qed
qed

lemma scan_inv_foldl:
  "n \<le> length C \<Longrightarrow>
   scan_inv c m A t C n (foldl (Traffic_loop_slot c m A t) (C, None, ALARM_LEVEL_NONE) [0 ..< n])"
proof (induction n)
  case 0
  show ?case by (simp add: scan_inv_def)
next
  case (Suc n)
  then show ?case by (simp add: scan_inv_step)
qed

lemma Traffic_loop_scan_inv:
  "scan_inv c m A t C (length C) (Traffic_loop_scan c m A t C)"
  unfolding Traffic_loop_scan_def by (rule scan_inv_foldl) simp


lemma Traffic_loop_cases:
  assumes "Traffic_loop c m A t C = (C', sound)" "i < length C"
  shows "length C' = length C"
    and "\<not> sounds_for c m A t C i \<Longrightarrow> C' ! i = slot_swept c m A t (C ! i)"
    and "sounds_for c m A t C i \<Longrightarrow>
           C' ! i = (slot_swept c m A t (C ! i))
                      \<lparr> alert_level := alarm_level (slot_swept c m A t (C ! i)) + 1,
                        alert := alert (slot_swept c m A t (C ! i)) OR TRAFFIC_ALERT_SOUND c \<rparr>
           \<and> sound = Some (alarm_level (slot_swept c m A t (C ! i)))
           \<and> alert_level (slot_swept c m A t (C ! i)) < alarm_level (slot_swept c m A t (C ! i))
           \<and> ALARM_LEVEL_CLOSE < alarm_level (slot_swept c m A t (C ! i))"
proof -
  obtain C1 mfop mx where scan: "Traffic_loop_scan c m A t C = (C1, mfop, mx)"
    by (cases "Traffic_loop_scan c m A t C")
  from Traffic_loop_scan_inv [of c m A t C, unfolded scan]
  have len: "length C1 = length C"
    and slots: "\<And>j. j < length C \<Longrightarrow> C1 ! j = slot_swept c m A t (C ! j)"
    and mf: "(case mfop of
              None \<Rightarrow> mx = ALARM_LEVEL_NONE
            | Some j \<Rightarrow> j < length C \<and> alarm_level (C1 ! j) = mx
                \<and> alert_level (C1 ! j) < mx \<and> ALARM_LEVEL_CLOSE < mx)"
    by (simp_all add: scan_inv_def)
  from assms(1) len show "length C' = length C"
    by (auto simp: Traffic_loop_def scan split: if_splits option.splits)
  show "C' ! i = slot_swept c m A t (C ! i)" if "\<not> sounds_for c m A t C i"
    using that assms slots [OF assms(2)] mf len
    by (auto simp: Traffic_loop_def sounds_for_def scan nth_list_update
        split: if_splits option.splits)
  show "C' ! i = (slot_swept c m A t (C ! i))
                      \<lparr> alert_level := alarm_level (slot_swept c m A t (C ! i)) + 1,
                        alert := alert (slot_swept c m A t (C ! i)) OR TRAFFIC_ALERT_SOUND c \<rparr>
           \<and> sound = Some (alarm_level (slot_swept c m A t (C ! i)))
           \<and> alert_level (slot_swept c m A t (C ! i)) < alarm_level (slot_swept c m A t (C ! i))
           \<and> ALARM_LEVEL_CLOSE < alarm_level (slot_swept c m A t (C ! i))"
    if "sounds_for c m A t C i"
    using that assms slots [OF assms(2)] mf len
    by (auto simp: Traffic_loop_def sounds_for_def scan nth_list_update
        split: if_splits option.splits)
qed

lemma sounds_for_length: "sounds_for c m A t C i \<Longrightarrow> i < length C"
proof -
  assume a: "sounds_for c m A t C i"
  obtain C1 mfop mx where scan: "Traffic_loop_scan c m A t C = (C1, mfop, mx)"
    by (cases "Traffic_loop_scan c m A t C")
  from Traffic_loop_scan_inv [of c m A t C, unfolded scan] a show ?thesis
    by (auto simp: scan_inv_def sounds_for_def scan)
qed

lemma Traffic_Update_ratchet:
  assumes "low + 1 \<le> alert_level fop"
  shows "min low (alarm_level (Traffic_Update m A t fop)) + 1
           \<le> alert_level (Traffic_Update m A t fop)"
  using assms by (auto simp: Traffic_Update_def Let_def split: option.split)

lemma slot_swept_ratchet:
  assumes "low + 1 \<le> alert_level fop" "addr (slot_swept c m A t fop) = addr fop"
  shows "min low (alarm_level (slot_swept c m A t fop)) + 1
           \<le> alert_level (slot_swept c m A t fop)"
proof (cases "slot_swept c m A t fop = Traffic_Update m A t fop")
  case True
  then show ?thesis using Traffic_Update_ratchet [OF assms(1)] by simp
next
  case False
  then have "slot_swept c m A t fop = fop \<or> (slot_swept c m A t fop = EmptyFO \<and> addr fop \<noteq> 0)"
    by (auto simp: slot_swept_def split: if_splits)
  then show ?thesis
  proof
    assume "slot_swept c m A t fop = fop"
    with assms(1) show ?thesis by simp
  next
    assume "slot_swept c m A t fop = EmptyFO \<and> addr fop \<noteq> 0"
    with assms(2) show ?thesis by (simp add: EmptyFO_def)
  qed
qed

lemma ParseData_store_shape:
  "ParseData_store c t n X C = C
   \<or> (\<exists>k. ParseData_store c t n X C =
             C[k := X\<lparr> prevcourse := course (C ! k), prevtime_ms := gnsstime_ms (C ! k),
                         alert := alert (C ! k), alert_level := alert_level (C ! k) \<rparr>])
   \<or> (\<exists>k. ParseData_store c t n X C = C[k := X]
          \<and> first_ndx (\<lambda>u. addr u = addr X) C = None)"
proof (cases "first_ndx (\<lambda>u. addr u = addr X) C")
  case (Some k)
  then show ?thesis by (auto simp: ParseData_store_def)
next
  case None
  note n1 = this
  show ?thesis
  proof (cases "first_ndx (\<lambda>u. n - timestamp u > ENTRY_EXPIRATION_TIME c) C")
    case (Some k)
    with n1 show ?thesis by (auto simp: ParseData_store_def)
  next
    case None
    note n2 = this
    show ?thesis
    proof (cases "first_ndx (\<lambda>u. alarm_level X > alarm_level u) C")
      case (Some k)
      with n1 n2 show ?thesis by (auto simp: ParseData_store_def)
    next
      case None
      with n1 n2 show ?thesis
        by (cases "farthest c t C 0 (0, 0)") (auto simp: ParseData_store_def)
    qed
  qed
qed

lemma ParseData_Container:
  "Container (ParseData c m A dec e s) = Container s
   \<or> (\<exists>X. Container (ParseData c m A dec e s)
             = ParseData_store c (ThisAircraft s) (now e) X (Container s))"
  by (auto simp: ParseData_def Let_def generate_random_id_def
      split: option.splits prod.splits)

lemma ParseData_slot:
  assumes "i < length (Container s)"
    and "addr (Container (ParseData c m A dec e s) ! i) = addr (Container s ! i)"
  shows "alert_level (Container (ParseData c m A dec e s) ! i) = alert_level (Container s ! i)"
    and "length (Container (ParseData c m A dec e s)) = length (Container s)"
proof -
  let ?C = "Container s"
  let ?C' = "Container (ParseData c m A dec e s)"
  have shape: "?C' = ?C
    \<or> (\<exists>k X. ?C' = ?C[k := X] \<and> alert_level X = alert_level (?C ! k))
    \<or> (\<exists>k X. ?C' = ?C[k := X] \<and> first_ndx (\<lambda>u. addr u = addr X) ?C = None)"
  proof -
    from ParseData_Container [of c m A dec e s] show ?thesis
    proof
      assume "?C' = ?C"
      then show ?thesis by simp
    next
      assume "\<exists>X. ?C' = ParseData_store c (ThisAircraft s) (now e) X ?C"
      then obtain X where X: "?C' = ParseData_store c (ThisAircraft s) (now e) X ?C" ..
      from ParseData_store_shape [of c "ThisAircraft s" "now e" X ?C] show ?thesis
      proof (elim disjE exE conjE)
        assume "ParseData_store c (ThisAircraft s) (now e) X ?C = ?C"
        with X show ?thesis by simp
      next
        fix k
        assume "ParseData_store c (ThisAircraft s) (now e) X ?C =
             ?C[k := X\<lparr> prevcourse := course (?C ! k), prevtime_ms := gnsstime_ms (?C ! k),
                         alert := alert (?C ! k), alert_level := alert_level (?C ! k) \<rparr>]"
        with X have "?C' = ?C[k := X\<lparr> prevcourse := course (?C ! k), prevtime_ms := gnsstime_ms (?C ! k),
                         alert := alert (?C ! k), alert_level := alert_level (?C ! k) \<rparr>]
           \<and> alert_level (X\<lparr> prevcourse := course (?C ! k), prevtime_ms := gnsstime_ms (?C ! k),
                         alert := alert (?C ! k), alert_level := alert_level (?C ! k) \<rparr>) = alert_level (?C ! k)"
          by simp
        then show ?thesis by blast
      next
        fix k
        assume "ParseData_store c (ThisAircraft s) (now e) X ?C = ?C[k := X]"
          "first_ndx (\<lambda>u. addr u = addr X) ?C = None"
        with X show ?thesis by auto
      qed
    qed
  qed
  then show "alert_level (?C' ! i) = alert_level (?C ! i)"
  proof (elim disjE exE conjE)
    assume "?C' = ?C"
    then show ?thesis by simp
  next
    fix k X
    assume "?C' = ?C[k := X]" "alert_level X = alert_level (?C ! k)"
    with assms(1) show ?thesis by (cases "k = i") simp_all
  next
    fix k X
    assume 1: "?C' = ?C[k := X]" and 2: "first_ndx (\<lambda>u. addr u = addr X) ?C = None"
    show ?thesis
    proof (cases "k = i")
      case True
      with 1 assms have "addr X = addr (?C ! i)" by simp
      with first_ndx_None [OF 2 assms(1)] show ?thesis by simp
    next
      case False
      with 1 show ?thesis by simp
    qed
  qed
  from shape show "length ?C' = length ?C" by auto
qed

lemma since_alert_invariant:
  "since_alert c m A i L low C \<Longrightarrow> i < length C \<and> low \<le> L \<and> low + 1 \<le> alert_level (C ! i)"
proof (induction rule: since_alert.induct)
  case (alerted this_aircraft C C' sound)
  from sounds_for_length [OF alerted(1)] have i: "i < length C" .
  from Traffic_loop_cases(1) [OF alerted(2) i] Traffic_loop_cases(3) [OF alerted(2) i alerted(1)]
    alerted(3)
  show ?case using i by simp
next
  case (swept low C this_aircraft C' sound)
  then have i: "i < length C" and low: "low \<le> L" "low + 1 \<le> alert_level (C ! i)"
    by simp_all
  from Traffic_loop_cases(2) [OF swept(3) i swept(2)]
  have eq: "C' ! i = slot_swept c m A this_aircraft (C ! i)" .
  with swept(4) have "addr (slot_swept c m A this_aircraft (C ! i)) = addr (C ! i)" by simp
  from slot_swept_ratchet [OF low(2) this] eq Traffic_loop_cases(1) [OF swept(3) i] i low(1)
  show ?case by simp
next
  case (received low C s C' protocol_decode e)
  then have i: "i < length (Container s)" and low: "low \<le> L" "low + 1 \<le> alert_level (C ! i)"
    by simp_all
  from received(2,3,4) have "addr (Container (ParseData c m A protocol_decode e s) ! i)
      = addr (Container s ! i)" by simp
  from ParseData_slot [OF i this] received(2,3)
  have "alert_level (C' ! i) = alert_level (C ! i)" "length C' = length C"
    by simp_all
  moreover have "min low (alarm_level (C' ! i)) \<le> low" by simp
  ultimately show ?case using i low received(2) by (auto simp: min_def)
qed

lemmas ex_sweep_defs =
  Traffic_loop_scan_def Traffic_loop_slot_def Traffic_Update_def Alarm_Distance_def
  ALARM_LEVEL_defs ex_scorer_defs ex_math_def ex_alarm_def ex_target_def
  ex_this1_def ex_this2_def ex_this3_def ex_C0_def ex_C1_def ex_C2_def ex_C3_def

lemma ex_scan1:
  "Traffic_loop_scan ex_params ex_math ex_alarm ex_this1 ex_C0
     = ([EmptyFO, ex_target\<lparr> alt_diff := 0, alarm_level := 4 \<rparr>], Some 1, 4)"
  by (simp add: ex_sweep_defs upt_rec Let_def)

lemma ex_scan2:
  "Traffic_loop_scan ex_params ex_math ex_alarm ex_this2 ex_C1 = (ex_C2, None, 0)"
  by (simp add: ex_sweep_defs upt_rec Let_def)

lemma ex_scan3:
  "Traffic_loop_scan ex_params ex_math ex_alarm ex_this3 ex_C2
     = ([EmptyFO, ex_target\<lparr> alt_diff := 150, alarm_level := 3, alert_level := 2, alert := 1 \<rparr>],
        Some 1, 3)"
  by (simp add: ex_sweep_defs upt_rec Let_def)

lemma ex_loop1: "Traffic_loop ex_params ex_math ex_alarm ex_this1 ex_C0 = (ex_C1, Some 4)"
  unfolding Traffic_loop_def ex_scan1
  by (simp add: ALARM_LEVEL_defs ex_C1_def ex_target_def EmptyFO_def ex_params_def)

lemma ex_loop2: "Traffic_loop ex_params ex_math ex_alarm ex_this2 ex_C1 = (ex_C2, None)"
  unfolding Traffic_loop_def ex_scan2
  by (simp add: ALARM_LEVEL_defs)

lemma ex_loop3: "Traffic_loop ex_params ex_math ex_alarm ex_this3 ex_C2 = (ex_C3, Some 3)"
  unfolding Traffic_loop_def ex_scan3
  by (simp add: ALARM_LEVEL_defs ex_C3_def ex_target_def EmptyFO_def ex_params_def)

lemma ex_sounds:
  "sounds_for ex_params ex_math ex_alarm ex_this1 ex_C0 1"
  "\<not> sounds_for ex_params ex_math ex_alarm ex_this2 ex_C1 1"
  "sounds_for ex_params ex_math ex_alarm ex_this3 ex_C2 1"
  unfolding sounds_for_def ex_scan1 ex_scan2 ex_scan3
  by (simp_all add: ALARM_LEVEL_defs)

text \<open>
  C3, as stated, fails. After the sound alert at URGENT (4) the track drops to CLOSE (1),
  which lowers its \<open>alert_level\<close> to 2, and the next sweep gives the sound alert at
  IMPORTANT (3): the level has neither reached 5 nor, after its drop, returned to 4.
\<close>

theorem alert_hysteresis_counterexample:
  "sounds_for ex_params ex_math ex_alarm ex_this1 ex_C0 1
   \<and> Traffic_loop ex_params ex_math ex_alarm ex_this1 ex_C0 = (ex_C1, Some 4)
   \<and> alarm_level (ex_C1 ! 1) = 4
   \<and> \<not> sounds_for ex_params ex_math ex_alarm ex_this2 ex_C1 1
   \<and> Traffic_loop ex_params ex_math ex_alarm ex_this2 ex_C1 = (ex_C2, None)
   \<and> alarm_level (ex_C2 ! 1) = 1
   \<and> sounds_for ex_params ex_math ex_alarm ex_this3 ex_C2 1
   \<and> Traffic_loop ex_params ex_math ex_alarm ex_this3 ex_C2 = (ex_C3, Some 3)
   \<and> alarm_level (ex_C3 ! 1) = 3"
  using ex_sounds ex_loop1 ex_loop2 ex_loop3
  by (simp add: ex_C1_def ex_C2_def ex_C3_def)

text \<open>
  C3, amended. After a sound alert at alarm level \<open>L\<close> for a track (which sets its
  \<open>alert_level\<close> to \<open>L + 1\<close>), and for as long as the track stays in its slot, the next
  sound alert for it comes only at an alarm level of at least \<open>L + 2\<close>, or, when its alarm
  level has dropped in between to some \<open>low \<le> L - 1\<close> (the lowest level it has shown since
  the alert; the ratchet of \<open>Traffic_Update\<close> leaves \<open>alert_level\<close> at \<open>low + 1\<close> or above),
  at a level of at least \<open>low + 2\<close>. That alert sets \<open>alert_level\<close> one above its alarm
  level again.
\<close>

theorem alert_hysteresis:
  assumes hist: "since_alert c m A i L low C"
    and snd: "sounds_for c m A this_aircraft C i"
    and loop: "Traffic_loop c m A this_aircraft C = (C', sound)"
  shows "sound = Some (alarm_level (C' ! i))
     \<and> alert_level (C' ! i) = alarm_level (C' ! i) + 1
     \<and> (L + 2 \<le> alarm_level (C' ! i) \<or> (low \<le> L - 1 \<and> low + 2 \<le> alarm_level (C' ! i)))"
proof -
  from since_alert_invariant [OF hist]
  have i: "i < length C" and low: "low \<le> L" "low + 1 \<le> alert_level (C ! i)"
    by simp_all
  let ?f = "slot_swept c m A this_aircraft (C ! i)"
  from Traffic_loop_cases(3) [OF loop i snd]
  have C': "C' ! i = ?f\<lparr> alert_level := alarm_level ?f + 1,
                        alert := alert ?f OR TRAFFIC_ALERT_SOUND c \<rparr>"
    and s: "sound = Some (alarm_level ?f)"
    and gt: "alert_level ?f < alarm_level ?f" "ALARM_LEVEL_CLOSE < alarm_level ?f"
    by simp_all
  from gt(2) have "?f \<noteq> EmptyFO" by (auto simp: EmptyFO_def ALARM_LEVEL_CLOSE_def)
  then have "addr ?f = addr (C ! i)"
    by (auto simp: slot_swept_def Traffic_Update_addr split: if_splits)
  from slot_swept_ratchet [OF low(2) this] gt(1)
  have "low + 2 \<le> alarm_level ?f" by linarith
  with low(1) C' s show ?thesis by auto
qed


theorem alert_hysteresis_witness:
  "since_alert ex_params ex_math ex_alarm 1 4 1 ex_C2
   \<and> sounds_for ex_params ex_math ex_alarm ex_this3 ex_C2 1
   \<and> Traffic_loop ex_params ex_math ex_alarm ex_this3 ex_C2 = (ex_C3, Some 3)
   \<and> alarm_level (ex_C3 ! 1) = 3 \<and> alert_level (ex_C3 ! 1) = 4
   \<and> \<not> (4 + 2 \<le> alarm_level (ex_C3 ! 1))
   \<and> (1::int) \<le> 4 - 1 \<and> 1 + 2 \<le> alarm_level (ex_C3 ! 1)"
proof -
  have "since_alert ex_params ex_math ex_alarm 1 4 4 ex_C1"
    by (rule since_alert.alerted [OF ex_sounds(1) ex_loop1]) (simp add: ex_C1_def)
  from since_alert.swept [OF this ex_sounds(2) ex_loop2]
  have hist: "since_alert ex_params ex_math ex_alarm 1 4 1 ex_C2"
    by (simp add: ex_C1_def ex_C2_def)
  from alert_hysteresis [OF hist ex_sounds(3) ex_loop3] hist ex_sounds(3) ex_loop3
  show ?thesis by (simp add: ex_C3_def)
qed

section \<open>Properties of the rounding to float\<close>

lemma round_even_near: "\<bar>real_of_int (round_even y) - y\<bar> \<le> 1 / 2"
proof -
  have "real_of_int \<lfloor>y\<rfloor> \<le> y" "y < real_of_int \<lfloor>y\<rfloor> + 1" by linarith+
  then show ?thesis by (auto simp: round_even_def Let_def)
qed


lemma float_ulp_pos: "0 < float_ulp x"
  by (simp add: float_ulp_def)

lemma to_float_near_ulp: "\<bar>to_float x - x\<bar> \<le> float_ulp x / 2"
proof (cases "x = 0")
  case True
  then show ?thesis using float_ulp_pos [of x] by (simp add: to_float_def)
next
  case False
  let ?u = "float_ulp x"
  have u: "0 < ?u" by (rule float_ulp_pos)
  have "to_float x - x = (real_of_int (round_even (x / ?u)) - x / ?u) * ?u"
    using u False by (simp add: to_float_def field_simps)
  then have "\<bar>to_float x - x\<bar> = \<bar>real_of_int (round_even (x / ?u)) - x / ?u\<bar> * ?u"
    using u by (simp add: abs_mult)
  also have "\<dots> \<le> (1 / 2) * ?u"
    using u by (intro mult_right_mono round_even_near) simp
  finally show ?thesis by simp
qed

lemma float_exp_le:
  assumes "x \<noteq> 0"
  shows "2 powr of_int \<lfloor>log 2 \<bar>x\<bar>\<rfloor> \<le> \<bar>x\<bar>"
proof -
  from assms have p: "0 < \<bar>x\<bar>" by simp
  have f: "of_int \<lfloor>log 2 \<bar>x\<bar>\<rfloor> \<le> log 2 \<bar>x\<bar>" by (rule of_int_floor_le)
  have "(of_int \<lfloor>log 2 \<bar>x\<bar>\<rfloor> \<le> log 2 \<bar>x\<bar>) = (2 powr of_int \<lfloor>log 2 \<bar>x\<bar>\<rfloor> \<le> \<bar>x\<bar>)"
    by (rule le_log_iff) (use p in simp_all)
  with f show ?thesis by blast
qed


lemma to_float_near: "\<bar>to_float x - x\<bar> \<le> \<bar>x\<bar> / 2 ^ 24 + 1 / 2 ^ 150"
proof (cases "x = 0")
  case True
  then show ?thesis by (simp add: to_float_def)
next
  case False
  let ?e = "\<lfloor>log 2 \<bar>x\<bar>\<rfloor>"
  show ?thesis
  proof (cases "- 126 \<le> ?e")
    case True
    then have "max ?e (- 126) = ?e" by (rule max_absorb1)
    then have "float_ulp x = 2 powr (of_int ?e - 23)"
      unfolding float_ulp_def by (simp only: of_int_diff of_int_numeral)
    also have "\<dots> = 2 powr of_int ?e / 2 ^ 23"
      by (simp add: powr_diff)
    also have "\<dots> \<le> \<bar>x\<bar> / 2 ^ 23"
      using float_exp_le [OF False] by (simp add: divide_right_mono)
    finally have "float_ulp x / 2 \<le> \<bar>x\<bar> / 2 ^ 24" by simp
    with to_float_near_ulp [of x] have "\<bar>to_float x - x\<bar> \<le> \<bar>x\<bar> / 2 ^ 24"
      by (rule order_trans)
    then show ?thesis by (rule order_trans) simp
  next
    case False
    then have "max ?e (- 126) = - 126" by (intro max_absorb2) linarith
    then have "float_ulp x = 2 powr (- 149)"
      unfolding float_ulp_def by (simp only:) simp
    also have "\<dots> = 1 / 2 ^ 149"
      by (simp add: powr_minus_divide)
    finally have "float_ulp x / 2 = 1 / 2 ^ 150" by simp
    with to_float_near_ulp [of x] have "\<bar>to_float x - x\<bar> \<le> 1 / 2 ^ 150"
      by (simp only:)
    then show ?thesis by (rule order_trans) simp
  qed
qed



lemma float_exp_eq:
  assumes "2 powr of_int k \<le> \<bar>x\<bar>" "\<bar>x\<bar> < 2 powr (of_int k + 1)"
  shows "\<lfloor>log 2 \<bar>x\<bar>\<rfloor> = k"
proof -
  have "0 < (2::real) powr of_int k" by simp
  with assms(1) have p: "0 < \<bar>x\<bar>" by linarith
  have "(of_int k \<le> log 2 \<bar>x\<bar>) = (2 powr of_int k \<le> \<bar>x\<bar>)"
    by (rule le_log_iff) (use p in simp_all)
  with assms(1) have a: "of_int k \<le> log 2 \<bar>x\<bar>" by blast
  have "(log 2 \<bar>x\<bar> < of_int k + 1) = (\<bar>x\<bar> < 2 powr (of_int k + 1))"
    by (rule log_less_iff) (use p in simp_all)
  with assms(2) have b: "log 2 \<bar>x\<bar> < of_int k + 1" by blast
  from a b show ?thesis by (rule floor_unique)
qed

lemma to_float_HP: "to_float 999999999 = 1000000000"
proof -
  have "\<lfloor>log 2 \<bar>999999999 :: real\<bar>\<rfloor> = 29"
    by (rule float_exp_eq) simp_all
  then have u: "float_ulp 999999999 = 64"
    by (simp add: float_ulp_def)
  show ?thesis
    by (simp add: to_float_def u round_even_def)
qed

lemma to_float_bound:
  assumes "\<bar>x\<bar> \<le> B" "1 \<le> B"
  shows "\<bar>to_float x - x\<bar> \<le> B * (597 / 10000000000)"
proof -
  have a: "\<bar>x\<bar> / 2 ^ 24 \<le> \<bar>x\<bar> * (5961 / 100000000000)" by simp
  from assms(1) have b: "\<bar>x\<bar> * (5961 / 100000000000) \<le> B * (5961 / 100000000000)" by simp
  have "(1::real) / 2 ^ 150 \<le> 1 / 10 ^ 20" by simp
  also have "\<dots> \<le> 1 * (9 / 100000000000)" by simp
  also from assms(2) have "\<dots> \<le> B * (9 / 100000000000)" by (intro mult_right_mono) simp_all
  finally have c: "(1::real) / 2 ^ 150 \<le> B * (9 / 100000000000)" .
  from to_float_near [of x] a b c show ?thesis by linarith
qed


section \<open>Properties of the NMEA export\<close>

subsection \<open>The list of the first loop\<close>














subsection \<open>The sentences of the second loop\<close>








subsection \<open>The export on the example tables\<close>

lemmas ex_export_defs =
  NMEA_Export_def export_PFLAA_def export_list_def export_scan_def export_slot_def
  export_listed_def export_hp_final_def PFLAU_sentence_def PFLAA_sentence_def HP_init_def
  to_float_HP ALARM_LEVEL_defs c_int_def ex_env_def ex_settings_def ex_params_def ex_this_def
  EmptyFO_def






lemma ex_full_PFLAA:
  "map snd (export_PFLAA ex_params ex_settings ex_env ex_this ex_T_full)
     = [1, 2, 3, 4, 5, 6, 7, 8, 9, 10, 11]"
  by (simp add: ex_export_defs ex_T_full_def ex_row_def upt_rec Let_def)



text \<open>
  The list of the first loop is not sorted in general. With a near track without alarm in
  the first slot and a farther track at alarm level IMPORTANT in the second, the second
  does not pass the test against the first, because it is farther, and is put behind it:
  the \<open>$PFLAA\<close> sentences come with the lower alarm level first, and the \<open>$PFLAU\<close> carries the
  address of the second.
\<close>

lemma ex_unsorted_out:
  "map sentence_id (NMEA_Export ex_params ex_settings ex_env ex_this ex_T_unsorted)
     = [Some 0xDD0003, Some 0xDD0004, Some 0xDD0004]
   \<and> map snd (export_PFLAA ex_params ex_settings ex_env ex_this ex_T_unsorted) = [0, 1]
   \<and> alarm_level (ex_T_unsorted ! 0) = 0 \<and> alarm_level (ex_T_unsorted ! 1) = 3"
  by (simp add: ex_export_defs ex_T_unsorted_def ex_nearby_def ex_threat_def upt_rec Let_def)

subsection \<open>The order of the sentences\<close>




subsection \<open>The identifier of a stealth target\<close>

text \<open>
  C10. The code does not do what the claim says. For a stealth target the first loop of
  \<open>NMEA_Export\<close> keeps the identifier \<open>0xFFFFF0\<close> plus the slot index for the \<open>$PFLAU\<close>
  sentence, as the claim has it, and the second loop prints \<open>0xFFFFF0\<close> plus its own
  counter, the position in the list, in \<open>$PFLAA\<close>. A stealth target in slot 1 of the table,
  the only entry of the list, is printed with \<open>0xFFFFF0\<close> in \<open>$PFLAA\<close> and with \<open>0xFFFFF1\<close>
  in \<open>$PFLAU\<close>. As the position depends on the address through \<open>follow_id\<close>, two tables that
  differ only in the address of the stealth target in slot 0, the followed address in
  one of them, give it the identifiers \<open>0xFFFFF0\<close> and \<open>0xFFFFF1\<close>.
\<close>

theorem PFLAA_stealth_id_divergence:
  "stealth (ex_T_stealth ! 1) \<and> addr (ex_T_stealth ! 1) = 0xDD0002
   \<and> export_PFLAA ex_params ex_settings ex_env ex_this ex_T_stealth = [(0, 1)]
   \<and> map sentence_id (NMEA_Export ex_params ex_settings ex_env ex_this ex_T_stealth)
       = [Some 0xFFFFF0, Some 0xFFFFF1]
   \<and> stealth (ex_T_followed ! 0) \<and> addr (ex_T_followed ! 0) = follow_id ex_follow_stealthy
   \<and> ex_T_renamed = ex_T_followed[0 := (ex_T_followed ! 0)\<lparr> addr := 0xABC123 \<rparr>]
   \<and> export_PFLAA ex_params ex_follow_stealthy ex_env ex_this ex_T_followed = [(0, 0), (1, 1)]
   \<and> map sentence_id (NMEA_Export ex_params ex_follow_stealthy ex_env ex_this ex_T_followed)
       = [Some 0xFFFFF0, Some 0xDD0006, Some 0xDD0006]
   \<and> export_PFLAA ex_params ex_follow_stealthy ex_env ex_this ex_T_renamed = [(0, 1), (1, 0)]
   \<and> map sentence_id (NMEA_Export ex_params ex_follow_stealthy ex_env ex_this ex_T_renamed)
       = [Some 0xDD0006, Some 0xFFFFF1, Some 0xDD0006]"
  by (simp add: ex_export_defs ex_T_stealth_def ex_stealthy_def ex_T_followed_def
      ex_T_renamed_def ex_follow_stealthy_def ex_close_def upt_rec Let_def)

section \<open>Properties of the Legacy packet codec\<close>

subsection \<open>XXTEA is inverted by itself\<close>

lemma btea_enc_steps_length:
  "length (fst (foldl (btea_enc_step key sm e) (v, z) ps)) = length v"
  by (induction ps arbitrary: v z) (simp_all add: btea_enc_step_def Let_def)

lemma btea_dec_steps_length:
  "length (fst (foldl (btea_dec_step key sm e) (v, y) ps)) = length v"
  by (induction ps arbitrary: v y) (simp_all add: btea_dec_step_def Let_def)

lemma btea_enc_round_length: "length (btea_enc_round key sm v) = length v"
proof -
  obtain v1 z1 where f: "foldl (btea_enc_step key sm (drop_bit 2 sm AND 3))
      (v, v ! (length v - 1)) [0 ..< length v - 1] = (v1, z1)"
    by (cases "foldl (btea_enc_step key sm (drop_bit 2 sm AND 3))
      (v, v ! (length v - 1)) [0 ..< length v - 1]")
  from btea_enc_steps_length [of key sm "drop_bit 2 sm AND 3" v "v ! (length v - 1)"
      "[0 ..< length v - 1]"]
    f
  have "length v1 = length v" by simp
  with f show ?thesis by (simp add: btea_enc_round_def Let_def)
qed

lemma btea_enc_rounds_length: "length (btea_enc_rounds r key sm v) = length v"
  by (induction r arbitrary: sm v) (simp_all add: Let_def btea_enc_round_length)

lemma upt_5: "[0 ..< 4] = [0, 1, 2, 3]" "[1 ..< 5] = [1, 2, 3, 4]"
  by (simp_all add: upt_rec)

lemma btea_round_inverse:
  assumes "length v = 5"
  shows "btea_dec_round key sm (btea_enc_round key sm v) = v"
proof -
  from assms obtain a b c d e where v: "v = [a, b, c, d, e]"
    by (auto simp: length_Suc_conv eval_nat_numeral)
  show ?thesis
    unfolding v
    by (simp add: btea_dec_round_def btea_enc_round_def btea_enc_step_def btea_dec_step_def
        upt_5 Let_def)
qed

lemma btea_enc_rounds_Suc:
  "btea_enc_rounds (Suc r) key sm v =
     btea_enc_round key (sm + of_nat (Suc r) * DELTA) (btea_enc_rounds r key sm v)"
proof (induction r arbitrary: sm v)
  case 0
  show ?case by (simp add: Let_def)
next
  case (Suc r)
  have "btea_enc_rounds (Suc (Suc r)) key sm v
      = btea_enc_rounds (Suc r) key (sm + DELTA) (btea_enc_round key (sm + DELTA) v)"
    by (simp add: Let_def)
  also have "\<dots> = btea_enc_round key (sm + DELTA + of_nat (Suc r) * DELTA)
      (btea_enc_rounds r key (sm + DELTA) (btea_enc_round key (sm + DELTA) v))"
    by (rule Suc.IH)
  also have "btea_enc_rounds r key (sm + DELTA) (btea_enc_round key (sm + DELTA) v)
      = btea_enc_rounds (Suc r) key sm v"
    by (simp add: Let_def)
  also have "sm + DELTA + of_nat (Suc r) * DELTA = sm + of_nat (Suc (Suc r)) * DELTA"
    by (simp add: algebra_simps)
  finally show ?case .
qed

lemma btea_rounds_inverse:
  assumes "length v = 5"
  shows "btea_dec_rounds r key (sm + of_nat r * DELTA) (btea_enc_rounds r key sm v) = v"
proof (induction r)
  case 0
  show ?case by simp
next
  case (Suc r)
  have len: "length (btea_enc_rounds r key sm v) = 5"
    by (simp add: btea_enc_rounds_length assms)
  have "btea_dec_rounds (Suc r) key (sm + of_nat (Suc r) * DELTA) (btea_enc_rounds (Suc r) key sm v)
    = btea_dec_rounds r key (sm + of_nat (Suc r) * DELTA - DELTA)
        (btea_dec_round key (sm + of_nat (Suc r) * DELTA)
           (btea_enc_round key (sm + of_nat (Suc r) * DELTA) (btea_enc_rounds r key sm v)))"
    by (simp only: btea_enc_rounds_Suc btea_dec_rounds.simps)
  also have "\<dots> = btea_dec_rounds r key (sm + of_nat (Suc r) * DELTA - DELTA) (btea_enc_rounds r key sm v)"
    by (simp only: btea_round_inverse [OF len])
  also have "sm + of_nat (Suc r) * DELTA - DELTA = sm + of_nat r * DELTA"
    by (simp add: algebra_simps)
  finally show ?case using Suc.IH by simp
qed

lemma btea_inverse:
  assumes "length v = 5"
  shows "btea (btea v 5 key) (- 5) key = v"
  using btea_rounds_inverse [OF assms, of 6 key 0]
  by (simp add: btea_def)

lemma btea_length: "length (btea v 5 key) = length v"
  by (simp add: btea_def btea_enc_rounds_length)

lemma pkt_btea_inverse:
  assumes "length pkt = 6"
  shows "pkt_btea (- 5) key (pkt_btea 5 key pkt) = pkt"
proof -
  have l5: "length (take 5 (drop 1 pkt)) = 5" using assms by simp
  have "pkt_btea 5 key pkt = take 1 pkt @ btea (take 5 (drop 1 pkt)) 5 key"
    using assms by (simp add: pkt_btea_def)
  moreover have "length (btea (take 5 (drop 1 pkt)) 5 key) = 5"
    using l5 by (simp add: btea_length)
  ultimately have "pkt_btea (- 5) key (pkt_btea 5 key pkt)
      = take 1 pkt @ btea (btea (take 5 (drop 1 pkt)) 5 key) (- 5) key"
    using assms by (simp add: pkt_btea_def)
  also have "\<dots> = take 1 pkt @ take 5 (drop 1 pkt)"
    by (simp only: btea_inverse [OF l5])
  also have "\<dots> = pkt"
  proof -
    have "take 5 (drop 1 pkt) = drop 1 pkt" using assms by simp
    then show ?thesis by simp
  qed
  finally show ?thesis .
qed

subsection \<open>Bit fields and the byte parity\<close>

lemma set_field_length: "length (set_field f x pkt) = length pkt"
  by (simp add: set_field_def)

lemma get_set_field_other:
  assumes "fields_disjoint f g" "fld_off f + fld_wid f \<le> 32"
  shows "get_field f (set_field g x pkt) = get_field f pkt"
proof (cases "fld_word f = fld_word g \<and> fld_word g < length pkt")
  case False
  then have "set_field g x pkt ! fld_word f = pkt ! fld_word f"
    by (cases "fld_word g < length pkt") (auto simp: set_field_def list_update_beyond)
  then show ?thesis
    by (simp add: get_field_def)
next
  case True
  with assms(1) have d: "fld_off f + fld_wid f \<le> fld_off g \<or> fld_off g + fld_wid g \<le> fld_off f"
    by (simp add: fields_disjoint_def)
  have "drop_bit (fld_off f)
          ((pkt ! fld_word g AND NOT (push_bit (fld_off g) (mask (fld_wid g))))
             OR push_bit (fld_off g) (x AND mask (fld_wid g))) AND mask (fld_wid f)
      = drop_bit (fld_off f) (pkt ! fld_word g) AND mask (fld_wid f)"
    by (rule bit_word_eqI) (use d assms(2) in \<open>auto simp: bit_simps\<close>)
  with True show ?thesis
    by (simp add: get_field_def set_field_def)
qed

lemma get_set_field_same:
  assumes "fld_word f < length pkt" "fld_off f + fld_wid f \<le> 32"
  shows "get_field f (set_field f x pkt) = x AND mask (fld_wid f)"
proof -
  have "drop_bit (fld_off f)
          ((pkt ! fld_word f AND NOT (push_bit (fld_off f) (mask (fld_wid f))))
             OR push_bit (fld_off f) (x AND mask (fld_wid f))) AND mask (fld_wid f)
      = x AND mask (fld_wid f)"
    by (rule bit_word_eqI) (use assms(2) in \<open>auto simp: bit_simps\<close>)
  with assms(1) show ?thesis
    by (simp add: get_field_def set_field_def)
qed

subsection \<open>The parity of the bytes and the number of set bits\<close>

lemma pkt_parity_words: "pkt_parity pkt = sum_list (map word_parity pkt)"
  unfolding pkt_parity_def pkt_bytes_def
  by (induction pkt) (simp_all add: word_parity_def)

lemma parity_byte:
  "parity (ucast (drop_bit (8 * j) (w :: 32 word)) :: 8 word)
     = (\<Sum>k = 0..<8. of_bool (bit w (8 * j + k))) mod 2"
proof -
  have "sum_list (map (\<lambda>k. of_bool (bit (ucast (drop_bit (8 * j) w) :: 8 word) k) :: nat) [0 ..< 8])
      = (\<Sum>k = 0..<8. of_bool (bit (ucast (drop_bit (8 * j) w) :: 8 word) k))"
    by (simp add: interv_sum_list_conv_sum_set_nat)
  also have "\<dots> = (\<Sum>k = 0..<8. of_bool (bit w (8 * j + k)))"
    by (rule sum.cong) (auto simp: bit_simps)
  finally show ?thesis by (simp add: parity_def)
qed

lemma word_parity_popcount: "word_parity w mod 2 = popcount w mod 2"
proof -
  let ?g = "\<lambda>i. of_bool (bit w i) :: nat"
  have "word_parity w = (\<Sum>j = 0..<4. (\<Sum>k = 0..<8. ?g (8 * j + k)) mod 2)"
    by (simp add: word_parity_def parity_byte interv_sum_list_conv_sum_set_nat comp_def)
  then have "word_parity w mod 2 = (\<Sum>j = 0..<4. (\<Sum>k = 0..<8. ?g (8 * j + k))) mod 2"
    by (simp add: mod_sum_eq)
  also have "(\<Sum>j = 0..<4. (\<Sum>k = 0..<8. ?g (8 * j + k))) = (\<Sum>j<4. sum ?g {j * 8 ..< j * 8 + 8})"
  proof -
    have "(\<Sum>k = 0..<8. ?g (8 * j + k)) = sum ?g {j * 8 ..< j * 8 + 8}" for j
      using sum.shift_bounds_nat_ivl [of ?g 0 "j * 8" 8] by (simp add: ac_simps)
    then show ?thesis by (simp add: atLeast0LessThan)
  qed
  also have "\<dots> = sum ?g {..<4 * 8}"
    by (rule sum.nat_group)
  finally show ?thesis by (simp add: popcount_def)
qed

lemma popcount_set_bit:
  assumes "n < 32" "\<not> bit w n"
  shows "popcount (w OR push_bit n 1) = Suc (popcount w)"
proof -
  have "popcount (w OR push_bit n 1) = (\<Sum>i<32. of_bool (bit w i) + of_bool (i = n))"
    unfolding popcount_def
    by (rule sum.cong) (use assms in \<open>auto simp: bit_simps\<close>)
  also have "\<dots> = popcount w + (\<Sum>i<32. of_bool (i = n))"
    by (simp add: popcount_def sum.distrib)
  also have "(\<Sum>i<32. of_bool (i = n)) = (1::nat)"
    using assms(1) by (simp add: of_bool_def sum.delta)
  finally show ?thesis by simp
qed

lemma pkt_parity_update:
  assumes "i < length pkt"
  shows "even (pkt_parity (pkt[i := w])) \<longleftrightarrow>
         (even (pkt_parity pkt) \<longleftrightarrow> (even (word_parity w) \<longleftrightarrow> even (word_parity (pkt ! i))))"
proof -
  have pkt: "pkt = take i pkt @ pkt ! i # drop (Suc i) pkt"
    using assms by (simp add: id_take_nth_drop)
  have upd: "pkt[i := w] = take i pkt @ w # drop (Suc i) pkt"
    using assms by (simp add: upd_conv_take_nth_drop)
  have "pkt_parity pkt = sum_list (map word_parity (take i pkt)) + word_parity (pkt ! i)
      + sum_list (map word_parity (drop (Suc i) pkt))"
    by (subst pkt) (simp add: pkt_parity_words)
  moreover have "pkt_parity (pkt[i := w]) = sum_list (map word_parity (take i pkt)) + word_parity w
      + sum_list (map word_parity (drop (Suc i) pkt))"
    by (simp add: upd pkt_parity_words)
  ultimately show ?thesis by auto
qed

lemma even_word_parity: "even (word_parity w) \<longleftrightarrow> even (popcount w)"
  using word_parity_popcount [of w] by (simp add: even_iff_mod_2_eq_zero)

text \<open>Setting a clear one-bit member to a bit value adds that value to the parity.\<close>

lemma pkt_parity_set_bit:
  assumes ok: "field_ok f" "fld_wid f = 1" and len: "length pkt = 6"
    and clear: "get_field f pkt = 0"
  shows "even (pkt_parity (set_field f x pkt)) \<longleftrightarrow> (even (pkt_parity pkt) \<longleftrightarrow> \<not> bit x 0)"
proof -
  let ?w = "pkt ! fld_word f"
  let ?n = "fld_off f"
  from ok have n: "?n < 32" and i: "fld_word f < length pkt"
    by (simp_all add: field_ok_def len)
  from clear ok(2) have nb: "\<not> bit ?w ?n"
  proof -
    have "bit (get_field f pkt) 0 = bit ?w ?n"
      by (simp add: get_field_def ok(2) bit_simps)
    with clear show ?thesis by simp
  qed
  have w': "(?w AND NOT (push_bit ?n (mask (fld_wid f)))) OR push_bit ?n (x AND mask (fld_wid f))
      = (if bit x 0 then ?w OR push_bit ?n 1 else ?w)"
    by (rule bit_word_eqI) (use nb ok(2) in \<open>auto simp: bit_simps\<close>)
  have "even (word_parity (if bit x 0 then ?w OR push_bit ?n 1 else ?w))
      \<longleftrightarrow> (even (word_parity ?w) \<longleftrightarrow> \<not> bit x 0)"
    using popcount_set_bit [OF n nb] by (simp add: even_word_parity)
  with pkt_parity_update [OF i, of "if bit x 0 then ?w OR push_bit ?n 1 else ?w"]
  show ?thesis
    unfolding set_field_def w' by auto
qed

lemma fields_disjoint_commute: "fields_disjoint f g = fields_disjoint g f"
  by (auto simp: fields_disjoint_def)

lemma ex_layout_ok: "layout_ok ex_layout"
  by (simp add: layout_ok_def layout_fields_def ex_layout_def field_ok_def fields_disjoint_def)

lemma layout_ok_parity:
  assumes "layout_ok lay"
  shows "field_ok (L_parity lay)" "fld_wid (L_parity lay) = 1"
    "fields_disjoint (L_parity lay) (L_stealth lay)"
    "fields_disjoint (L_parity lay) (L_no_track lay)"
    "fields_disjoint (L_parity lay) (L_aircraft_type lay)"
    "fields_disjoint (L_parity lay) (L_gps lay)"
    "fields_disjoint (L_parity lay) (L_lat lay)"
    "fields_disjoint (L_parity lay) (L_lon lay)"
    "fields_disjoint (L_parity lay) (L_alt lay)"
    "fields_disjoint (L_parity lay) (L_unk0 lay)"
    "fields_disjoint (L_parity lay) (L_unk1 lay)"
    "fields_disjoint (L_parity lay) (L_unk2 lay)"
    "fields_disjoint (L_parity lay) (L_unk3 lay)"
  using assms by (simp_all add: layout_ok_def layout_fields_def)

lemma foldl_set_length:
  "length (foldl (\<lambda>p i. set_field (F i) (X i) (set_field (G i) (Y i) p)) pkt is) = length pkt"
  by (induction "is" arbitrary: pkt) (simp_all add: set_field_length)

lemma legacy_fill_length: "length (legacy_fill c lay st t t1 pkt) = length pkt"
  by (simp add: legacy_fill_def Let_def set_field_length foldl_set_length)

lemma legacy_fill_parity_clear:
  assumes "layout_ok lay" "length pkt = 6"
  shows "get_field (L_parity lay) (legacy_fill c lay st t t1 pkt) = 0"
proof -
  note p = layout_ok_parity [OF assms(1)]
  from p(1) have b: "fld_off (L_parity lay) + fld_wid (L_parity lay) \<le> 32"
    "fld_word (L_parity lay) < 6"
    by (simp_all add: field_ok_def)
  have same: "get_field (L_parity lay) (set_field (L_parity lay) 0 q) = 0" if "length q = 6" for q
    using get_set_field_same [of "L_parity lay" q 0] b that by simp
  have other: "get_field (L_parity lay) (set_field g x q) = get_field (L_parity lay) q"
    if "fields_disjoint (L_parity lay) g" for g x q
    using get_set_field_other [OF that b(1)] .
  show ?thesis
    unfolding legacy_fill_def Let_def
    by (simp add: other p same assms(2) set_field_length foldl_set_length)
qed

lemma legacy_plain_even:
  assumes "layout_ok lay" "length pkt = 6"
  shows "even (pkt_parity (legacy_plain c lay st t t1 pkt))"
proof -
  let ?p = "legacy_fill c lay st t t1 pkt"
  note p = layout_ok_parity [OF assms(1)]
  have len: "length ?p = 6" by (simp add: legacy_fill_length assms(2))
  have "bit (of_nat (pkt_parity ?p mod 2) :: 32 word) 0 \<longleftrightarrow> odd (pkt_parity ?p)"
  proof (cases "even (pkt_parity ?p)")
    case True
    then have "pkt_parity ?p mod 2 = 0" by presburger
    with True show ?thesis by simp
  next
    case False
    then have "pkt_parity ?p mod 2 = 1" by presburger
    with False show ?thesis by simp
  qed
  with pkt_parity_set_bit [OF p(1,2) len legacy_fill_parity_clear [OF assms],
      of "of_nat (pkt_parity ?p mod 2)"]
  show ?thesis
    by (simp add: legacy_plain_def Let_def)
qed

lemma legacy_plain_length: "length (legacy_plain c lay st t t1 pkt) = length pkt"
  by (simp add: legacy_plain_def Let_def set_field_length legacy_fill_length)

lemma pkt_btea_first:
  assumes "fld_word f = 0" "length pkt = 6"
  shows "get_field f (pkt_btea n key pkt) = get_field f pkt"
proof -
  from assms(2) obtain w ws where "pkt = w # ws" by (cases pkt) auto
  with assms(1) show ?thesis by (simp add: get_field_def pkt_btea_def)
qed

lemma legacy_decrypt_encode:
  assumes lay: "layout_ok lay" and len: "length pkt = 6"
    and ts: "timestamp rx = timestamp t"
  shows "legacy_decrypt lay k rx (fst (legacy_encode c lay k st proj pkt t))
           = legacy_plain c lay st t (proj t) pkt"
proof -
  let ?p = "legacy_plain c lay st t (proj t) pkt"
  have l: "length ?p = 6" by (simp add: legacy_plain_length len)
  from lay have a0: "fld_word (L_addr lay) = 0" by (simp add: layout_ok_def)
  show ?thesis
    by (simp add: legacy_decrypt_def legacy_encode_def Let_def ts
        pkt_btea_first [OF a0 l] pkt_btea_inverse [OF l])
qed

lemma legacy_decode_verdict:
  "fst (legacy_decode c lay k st m ms pkt0 this_aircraft fop)
     \<longleftrightarrow> even (pkt_parity (legacy_decrypt lay k this_aircraft pkt0))"
  by (simp add: legacy_decode_def Let_def even_iff_mod_2_eq_zero)

subsection \<open>The parity of a packet\<close>

text \<open>
  C2. For a packet layout whose members do not overlap and a buffer of 24 bytes, the packet
  that \<open>legacy_encode\<close> has built when the parity bit is set, before XXTEA, has an even sum
  of the bit-parities of its 24 bytes, and the output of \<open>legacy_encode\<close> is that packet
  encrypted. \<open>legacy_decode\<close> returns true exactly when the same sum over the decrypted
  packet is even, so it returns false exactly when that parity is odd. With the same
  timestamp at both ends the decrypted packet is the one the encoder built, and it is
  accepted.
\<close>

theorem legacy_parity:
  assumes "layout_ok lay" "length pkt = 6"
  shows "even (pkt_parity (legacy_plain c lay st this_aircraft (project_this this_aircraft) pkt))
    \<and> (\<exists>key. fst (legacy_encode c lay k st project_this pkt this_aircraft)
           = pkt_btea 5 key
               (legacy_plain c lay st this_aircraft (project_this this_aircraft) pkt))
    \<and> (fst (legacy_decode c lay k st m ms pkt0 receiver fop)
          \<longleftrightarrow> even (pkt_parity (legacy_decrypt lay k receiver pkt0)))
    \<and> (timestamp receiver = timestamp this_aircraft \<longrightarrow>
          legacy_decrypt lay k receiver
            (fst (legacy_encode c lay k st project_this pkt this_aircraft))
          = legacy_plain c lay st this_aircraft (project_this this_aircraft) pkt
        \<and> fst (legacy_decode c lay k st m ms
                  (fst (legacy_encode c lay k st project_this pkt this_aircraft))
                  receiver fop))"
proof (intro conjI impI)
  show "even (pkt_parity (legacy_plain c lay st this_aircraft (project_this this_aircraft) pkt))"
    by (rule legacy_plain_even [OF assms])
  show "\<exists>key. fst (legacy_encode c lay k st project_this pkt this_aircraft)
           = pkt_btea 5 key
               (legacy_plain c lay st this_aircraft (project_this this_aircraft) pkt)"
    by (auto simp: legacy_encode_def Let_def)
  show "fst (legacy_decode c lay k st m ms pkt0 receiver fop)
          \<longleftrightarrow> even (pkt_parity (legacy_decrypt lay k receiver pkt0))"
    by (rule legacy_decode_verdict)
  assume ts: "timestamp receiver = timestamp this_aircraft"
  show d: "legacy_decrypt lay k receiver
            (fst (legacy_encode c lay k st project_this pkt this_aircraft))
          = legacy_plain c lay st this_aircraft (project_this this_aircraft) pkt"
    by (rule legacy_decrypt_encode [OF assms ts])
  show "fst (legacy_decode c lay k st m ms
                  (fst (legacy_encode c lay k st project_this pkt this_aircraft))
                  receiver fop)"
    unfolding legacy_decode_verdict d by (rule legacy_plain_even [OF assms])
qed

theorem legacy_parity_witness:
  "layout_ok ex_layout \<and> length ex_buffer = 6
   \<and> timestamp ex_receiver = timestamp ex_sender
   \<and> even (pkt_parity (legacy_plain ex_params ex_layout ex_settings ex_sender
                         (ex_project ex_sender) ex_buffer))
   \<and> fst (legacy_decode ex_params ex_layout ex_keys ex_settings ex_math 9000
            (fst (legacy_encode ex_params ex_layout ex_keys ex_settings ex_project ex_buffer
                    ex_sender))
            ex_receiver EmptyFO)"
proof -
  have len: "length ex_buffer = 6" by (simp add: ex_buffer_def)
  have ts: "timestamp ex_receiver = timestamp ex_sender"
    by (simp add: ex_receiver_def ex_sender_def EmptyFO_def)
  from legacy_parity [OF ex_layout_ok len, of ex_params ex_settings ex_sender ex_project
      ex_keys ex_math 9000 "[]" ex_receiver EmptyFO] ts ex_layout_ok len
  show ?thesis by blast
qed

subsection \<open>The round trip through encoder and decoder\<close>

lemma legacy_plain_fields:
  assumes lay: "layout_ok lay" and len: "length pkt = 6"
  shows "get_field (L_addr lay) (legacy_plain c lay st t t1 pkt) = (addr t1 AND 0x00FFFFFF) AND mask 24"
    and "get_field (L_smult lay) (legacy_plain c lay st t t1 pkt)
           = of_nat (legacy_smult (legacy_speed4 c t)) AND mask 2"
    and "get_field (L_vs lay) (legacy_plain c lay st t t1 pkt)
           = word_of_int (drop_bit (legacy_smult (legacy_speed4 c t))
               (signed_take_bit 15
                  (c_roundf (to_float (to_float (vs t / (GPS_FEET_PER_METER c * 60.0)) * 10)))))
             AND mask 10"
    and "get_field (L_lat lay) (legacy_plain c lay st t t1 pkt)
           = (legacy_fold (latitude t) AND 0x07FFFF) AND mask 19"
    and "get_field (L_lon lay) (legacy_plain c lay st t t1 pkt)
           = (legacy_fold (longitude t) AND 0x0FFFFF) AND mask 20"
    and "get_field (L_alt lay) (legacy_plain c lay st t t1 pkt)
           = word_of_int (signed_take_bit 15 (c_int (to_float (altitude t + geoid_separation t))))
             AND mask 13"
    and "get_field (L_ns lay ! 0) (legacy_plain c lay st t t1 pkt)
           = word_of_int (drop_bit (legacy_smult (legacy_speed4 c t)) (fla_ns t1 ! 0)) AND mask 8"
    and "get_field (L_ew lay ! 0) (legacy_plain c lay st t t1 pkt)
           = word_of_int (drop_bit (legacy_smult (legacy_speed4 c t)) (fla_ew t1 ! 0)) AND mask 8"
proof -
  from lay have w0: "fld_wid (L_vs lay) = 10" "fld_wid (L_smult lay) = 2"
    "fld_wid (L_addr lay) = 24" "fld_wid (L_lat lay) = 19" "fld_wid (L_lon lay) = 20"
    "fld_wid (L_alt lay) = 13"
    by (simp_all add: layout_ok_def)
  from lay have "list_all (\<lambda>f. fld_wid f = 8) (L_ns lay)"
    "list_all (\<lambda>f. fld_wid f = 8) (L_ew lay)" "length (L_ns lay) = 4" "length (L_ew lay) = 4"
    by (simp_all add: layout_ok_def)
  then have w1: "fld_wid (L_ns lay ! 0) = 8" "fld_wid (L_ew lay ! 0) = 8"
    by (simp_all add: list_all_length)
  note w = w0 w1
  from lay have ok: "list_all field_ok (layout_fields lay)"
    and dj: "pairwise_disjoint (layout_fields lay)"
    by (simp_all add: layout_ok_def)
  note f = ok [unfolded layout_fields_def, simplified]
    dj [unfolded layout_fields_def, simplified]
  have other: "get_field f (set_field g x q) = get_field f q"
    if "fields_disjoint f g \<or> fields_disjoint g f" "field_ok f" for f g x q
    using that get_set_field_other [of f g x q]
    by (auto simp: fields_disjoint_commute field_ok_def)
  have same: "get_field f (set_field f x q) = x AND mask (fld_wid f)"
    if "length q = 6" "field_ok f" for f x q
    using that get_set_field_same [of f q x] by (simp add: field_ok_def)
  note s = other same set_field_length upt_5 legacy_plain_def legacy_fill_def Let_def
  show "get_field (L_addr lay) (legacy_plain c lay st t t1 pkt) = (addr t1 AND 0x00FFFFFF) AND mask 24"
    by (simp add: s f len w)
  show "get_field (L_smult lay) (legacy_plain c lay st t t1 pkt)
           = of_nat (legacy_smult (legacy_speed4 c t)) AND mask 2"
    by (simp add: s f len w)
  show "get_field (L_vs lay) (legacy_plain c lay st t t1 pkt)
           = word_of_int (drop_bit (legacy_smult (legacy_speed4 c t))
               (signed_take_bit 15
                  (c_roundf (to_float (to_float (vs t / (GPS_FEET_PER_METER c * 60.0)) * 10)))))
             AND mask 10"
    by (simp add: s f len w)
  show "get_field (L_lat lay) (legacy_plain c lay st t t1 pkt)
           = (legacy_fold (latitude t) AND 0x07FFFF) AND mask 19"
    by (simp add: s f len w)
  show "get_field (L_lon lay) (legacy_plain c lay st t t1 pkt)
           = (legacy_fold (longitude t) AND 0x0FFFFF) AND mask 20"
    by (simp add: s f len w)
  show "get_field (L_alt lay) (legacy_plain c lay st t t1 pkt)
           = word_of_int (signed_take_bit 15 (c_int (to_float (altitude t + geoid_separation t))))
             AND mask 13"
    by (simp add: s f len w)
  show "get_field (L_ns lay ! 0) (legacy_plain c lay st t t1 pkt)
           = word_of_int (drop_bit (legacy_smult (legacy_speed4 c t)) (fla_ns t1 ! 0)) AND mask 8"
    by (simp add: s f len w)
  show "get_field (L_ew lay ! 0) (legacy_plain c lay st t t1 pkt)
           = word_of_int (drop_bit (legacy_smult (legacy_speed4 c t)) (fla_ew t1 ! 0)) AND mask 8"
    by (simp add: s f len w)
qed

lemma uint_field:
  assumes "n \<le> 32"
  shows "uint ((word_of_int x :: 32 word) AND mask n) = take_bit n x"
proof -
  have "uint ((word_of_int x :: 32 word) AND mask n) = take_bit n (take_bit 32 x)"
    by (simp add: uint_word_of_int_eq unsigned_take_bit_eq flip: take_bit_eq_mask)
  also from assms have "\<dots> = take_bit n x" by (simp add: min_def)
  finally show ?thesis .
qed

lemma signed_field_raw:
  assumes "0 < n" "n \<le> 32"
  shows "signed_take_bit (n - 1) (uint ((word_of_int x :: 32 word) AND mask n))
           = signed_take_bit (n - 1) x"
proof -
  from assms have "\<not> n \<le> n - 1" by simp
  with assms show ?thesis by (simp only: uint_field signed_take_bit_take_bit if_False)
qed

lemma signed_field:
  assumes "0 < n" "n \<le> 32" "- (2 ^ (n - 1)) \<le> x" "x < 2 ^ (n - 1)"
  shows "signed_take_bit (n - 1) (uint ((word_of_int x :: 32 word) AND mask n)) = x"
  using assms by (simp only: signed_field_raw signed_take_bit_int_eq_self)

lemma legacy_smult_field:
  "unat ((of_nat (legacy_smult x) :: 32 word) AND mask 2) = legacy_smult x"
  by (simp add: legacy_smult_def mask_eq_exp_minus_1)




lemma legacy_fold_round:
  assumes "x \<le> 180"
  shows "legacy_fold x = word_of_int (legacy_round x)"
proof (cases "x < 0")
  case True
  then show ?thesis by (simp add: legacy_fold_def legacy_round_def)
next
  case False
  define n where "n = c_int (x * 10000000)"
  from False assms have n: "0 \<le> n" "n \<le> 1800000000"
    by (simp_all add: n_def c_int_def le_floor_iff floor_le_iff)
  have u: "uint (word_of_int n + 0x40 :: 32 word) = n + 64"
  proof -
    have a: "(word_of_int n + 0x40 :: 32 word) = word_of_int (n + 64)" by simp
    from n have t: "take_bit 32 (n + 64) = n + 64" by (simp add: take_bit_int_eq_self)
    have b: "uint (word_of_int (n + 64) :: 32 word) = n + 64"
      by (subst uint_word_of_int_eq) (simp add: t)
    show ?thesis unfolding a by (rule b)
  qed
  have "uint (drop_bit 7 (word_of_int n + 0x40 :: 32 word)) = drop_bit 7 (n + 64)"
    using n by (simp add: unsigned_drop_bit_eq u take_bit_int_eq_self)
  then have "drop_bit 7 (word_of_int n + 0x40 :: 32 word) = word_of_int (drop_bit 7 (n + 64))"
    by (metis word_of_int_uint)
  with False show ?thesis by (simp add: legacy_fold_def legacy_round_def n_def)
qed



lemma c_roundf_eq:
  assumes "real_of_int n - 1 / 2 < y" "y < real_of_int n + 1 / 2"
  shows "c_roundf y = n"
proof (cases "0 \<le> y")
  case True
  have "\<lfloor>y + 1 / 2\<rfloor> = n" by (rule floor_unique) (use assms in simp_all)
  with True show ?thesis by (simp add: c_roundf_def)
next
  case False
  have "\<lceil>y - 1 / 2\<rceil> = n" by (rule ceiling_unique) (use assms in simp_all)
  with False show ?thesis by (simp add: c_roundf_def)
qed

lemma legacy_unfold_fold:
  assumes "0 < bits" "- (2 ^ (bits - 1)) \<le> q - legacy_round r"
    "q - legacy_round r < 2 ^ (bits - 1)"
    and x: "uint x = take_bit bits q"
  shows "legacy_unfold bits r x = to_float (real_of_int (push_bit 7 q) * (1 / 10000000))"
proof -
  define d where "d = q - legacy_round r"
  define H :: int where "H = 2 ^ (bits - 1)"
  from assms(1) have M: "(2::int) ^ bits = 2 * H"
    by (cases bits) (simp_all add: H_def)
  have H: "0 < H" by (simp add: H_def)
  have i0: "take_bit bits (uint x - legacy_round r) = d mod (2 * H)"
    by (simp add: x take_bit_eq_mod d_def M mod_diff_left_eq)
  from assms(2,3) have dr: "- H \<le> d" "d < H" by (simp_all add: d_def H_def)
  have i1: "(if d mod (2 * H) \<ge> H then d mod (2 * H) - 2 * H else d mod (2 * H)) = d"
  proof (cases "0 \<le> d")
    case True
    with dr H have "d mod (2 * H) = d" by simp
    with dr show ?thesis by simp
  next
    case False
    have "d mod (2 * H) = (d + 2 * H) mod (2 * H)" by simp
    also from False dr H have "\<dots> = d + 2 * H" by (intro mod_pos_pos_trivial) linarith+
    finally show ?thesis using dr by simp
  qed
  have "legacy_unfold bits r x
          = to_float (real_of_int (push_bit 7 (d + legacy_round r)) * (1 / 10000000))"
    unfolding legacy_unfold_def Let_def i0 M H_def [symmetric] i1 ..
  then show ?thesis by (simp add: d_def)
qed

lemma legacy_masks:
  "(0x00FFFFFF :: 32 word) = mask 24" "(0x07FFFF :: 32 word) = mask 19"
  "(0x0FFFFF :: 32 word) = mask 20"
  by (simp_all add: mask_eq_exp_minus_1)

lemma legacy_mask_twice:
  fixes x :: "32 word"
  shows "(x AND 0x00FFFFFF) AND mask 24 = x AND 0x00FFFFFF"
    "(x AND 0x07FFFF) AND mask 19 = x AND mask 19"
    "(x AND 0x0FFFFF) AND mask 20 = x AND mask 20"
  by (simp_all only: legacy_masks and.assoc and.idem)





lemma decode_encode_fields:
  assumes lay: "layout_ok lay" and len: "length pkt = 6"
    and ts: "timestamp rx = timestamp t"
    and id1: "addr (proj t) AND 0x00FFFFFF \<noteq> ignore_id st"
    and id2: "addr (proj t) AND 0x00FFFFFF \<noteq> addr rx"
  shows "fst (decode_encode c lay k st m ms proj pkt t rx fop)"
    and "addr (snd (decode_encode c lay k st m ms proj pkt t rx fop))
           = addr (proj t) AND 0x00FFFFFF"
    and "latitude (snd (decode_encode c lay k st m ms proj pkt t rx fop))
           = legacy_unfold 19 (latitude rx) (legacy_fold (latitude t) AND mask 19)"
    and "longitude (snd (decode_encode c lay k st m ms proj pkt t rx fop))
           = legacy_unfold 20 (longitude rx) (legacy_fold (longitude t) AND mask 20)"
    and "altitude (snd (decode_encode c lay k st m ms proj pkt t rx fop))
           = to_float (real_of_int (take_bit 13 (signed_take_bit 15
               (c_int (to_float (altitude t + geoid_separation t))))) - geoid_separation rx)"
    and "vs (snd (decode_encode c lay k st m ms proj pkt t rx fop))
           = to_float (real_of_int (push_bit (legacy_smult (legacy_speed4 c t))
               (signed_take_bit 9 (drop_bit (legacy_smult (legacy_speed4 c t))
                  (signed_take_bit 15
                     (c_roundf (to_float (to_float (vs t / (GPS_FEET_PER_METER c * 60)) * 10)))))))
             * (GPS_FEET_PER_METER c * 6))"
    and "speed (snd (decode_encode c lay k st m ms proj pkt t rx fop))
           = to_float ((1 / (4 * GPS_MPS_PER_KNOT c))
             * approxHypotenuse m
                 (real_of_int (push_bit (legacy_smult (legacy_speed4 c t))
                    (signed_take_bit 7 (drop_bit (legacy_smult (legacy_speed4 c t))
                       (fla_ns (proj t) ! 0)))))
                 (real_of_int (push_bit (legacy_smult (legacy_speed4 c t))
                    (signed_take_bit 7 (drop_bit (legacy_smult (legacy_speed4 c t))
                       (fla_ew (proj t) ! 0))))))"
proof -
  let ?p = "legacy_plain c lay st t (proj t) pkt"
  have d: "legacy_decrypt lay k rx (fst (legacy_encode c lay k st proj pkt t)) = ?p"
    by (rule legacy_decrypt_encode [OF lay len ts])
  from legacy_plain_even [OF lay len, of c st t "proj t"]
  have ev: "pkt_parity ?p mod 2 = 0" by (simp add: even_iff_mod_2_eq_zero)
  note fl = legacy_plain_fields [OF lay len, of c st t "proj t", unfolded legacy_mask_twice]
  from lay have w0: "fld_wid (L_vs lay) = 10" by (simp add: layout_ok_def)
  from lay have "list_all (\<lambda>f. fld_wid f = 8) (L_ns lay)"
    "list_all (\<lambda>f. fld_wid f = 8) (L_ew lay)" "length (L_ns lay) = 4" "length (L_ew lay) = 4"
    by (simp_all add: layout_ok_def)
  then have w1: "fld_wid (L_ns lay ! 0) = 8" "fld_wid (L_ew lay ! 0) = 8"
    by (simp_all add: list_all_length)
  note s = decode_encode_def legacy_decode_def Let_def d ev fl id1 id2 get_signed_def w0 w1
    legacy_smult_field uint_field signed_take_bit_take_bit
  show "fst (decode_encode c lay k st m ms proj pkt t rx fop)"
    by (simp add: s)
  show "addr (snd (decode_encode c lay k st m ms proj pkt t rx fop))
           = addr (proj t) AND 0x00FFFFFF"
    by (simp add: s)
  show "latitude (snd (decode_encode c lay k st m ms proj pkt t rx fop))
           = legacy_unfold 19 (latitude rx) (legacy_fold (latitude t) AND mask 19)"
    by (simp add: s)
  show "longitude (snd (decode_encode c lay k st m ms proj pkt t rx fop))
           = legacy_unfold 20 (longitude rx) (legacy_fold (longitude t) AND mask 20)"
    by (simp add: s)
  show "altitude (snd (decode_encode c lay k st m ms proj pkt t rx fop))
           = to_float (real_of_int (take_bit 13 (signed_take_bit 15
               (c_int (to_float (altitude t + geoid_separation t))))) - geoid_separation rx)"
    by (simp add: s)
  show "vs (snd (decode_encode c lay k st m ms proj pkt t rx fop))
           = to_float (real_of_int (push_bit (legacy_smult (legacy_speed4 c t))
               (signed_take_bit 9 (drop_bit (legacy_smult (legacy_speed4 c t))
                  (signed_take_bit 15
                     (c_roundf (to_float (to_float (vs t / (GPS_FEET_PER_METER c * 60)) * 10)))))))
             * (GPS_FEET_PER_METER c * 6))"
    by (simp add: s)
  show "speed (snd (decode_encode c lay k st m ms proj pkt t rx fop))
           = to_float ((1 / (4 * GPS_MPS_PER_KNOT c))
             * approxHypotenuse m
                 (real_of_int (push_bit (legacy_smult (legacy_speed4 c t))
                    (signed_take_bit 7 (drop_bit (legacy_smult (legacy_speed4 c t))
                       (fla_ns (proj t) ! 0)))))
                 (real_of_int (push_bit (legacy_smult (legacy_speed4 c t))
                    (signed_take_bit 7 (drop_bit (legacy_smult (legacy_speed4 c t))
                       (fla_ew (proj t) ! 0))))))"
    by (simp add: s)
qed



subsection \<open>The round trip on the example aircraft\<close>



text \<open>
  At 31880 kt the speed in quarter metres per second is 65602, of which the cast to
  \<open>uint16_t\<close> keeps 66: the scale exponent is 0.
\<close>

lemma ex_speed4_wrap:
  "legacy_speed4 ex_params ex_sender_fast = 66
   \<and> legacy_smult (legacy_speed4 ex_params ex_sender_fast) = 0"
proof -
  define y :: real where "y = speed ex_sender_fast * GPS_MPS_PER_KNOT ex_params"
  define a where "a = to_float y"
  define b where "b = to_float (a * 4)"
  have y: "1640048 / 100 \<le> y" "y \<le> 1640049 / 100"
    by (simp_all add: y_def ex_sender_fast_def ex_sender_def ex_params_def EmptyFO_def)
  then have "\<bar>y\<bar> \<le> 16401" by linarith
  from to_float_bound [OF this] have ay: "\<bar>a - y\<bar> \<le> 16401 * (597 / 10000000000)"
    by (simp add: a_def)
  with y have "\<bar>a * 4\<bar> \<le> 65603" by linarith
  from to_float_bound [OF this] have "\<bar>b - a * 4\<bar> \<le> 65603 * (597 / 10000000000)"
    by (simp add: b_def)
  with ay y have "real_of_int 65602 - 1 / 2 < b" "b < real_of_int 65602 + 1 / 2" by linarith+
  then have "c_roundf b = 65602" by (rule c_roundf_eq)
  then have "legacy_speed4 ex_params ex_sender_fast = 66"
    by (simp add: legacy_speed4_def Let_def b_def a_def y_def take_bit_eq_mod)
  then show ?thesis by (simp add: legacy_smult_def)
qed


lemma ex_codec_hyps:
  "length ex_buffer = 6" "timestamp ex_receiver = timestamp ex_sender"
  "addr (ex_project ex_sender) AND 0x00FFFFFF \<noteq> ignore_id ex_settings"
  "addr (ex_project ex_sender) AND 0x00FFFFFF \<noteq> addr ex_receiver"
  by (simp_all add: ex_buffer_def ex_receiver_def ex_sender_def ex_settings_def ex_project_def
      EmptyFO_def)



text \<open>
  The latitude \<open>48 + 5 / 2^18\<close> degrees is sent as 3750001 units of \<open>128e-7\<close> degrees, that is
  48.0000128 degrees, which the decoder stores in a \<open>float\<close> as \<open>48 + 3 / 2^18\<close>: the
  rounding adds to the error of the packet's resolution.
\<close>

lemma ex_latitude_fine:
  "latitude (snd (decode_encode ex_params ex_layout ex_keys ex_settings ex_math 9000 ex_project
                ex_buffer ex_sender_fine ex_receiver EmptyFO)) = 48 + 3 / 262144"
proof -
  have hyps: "timestamp ex_receiver = timestamp ex_sender_fine"
    "addr (ex_project ex_sender_fine) AND 0x00FFFFFF \<noteq> ignore_id ex_settings"
    "addr (ex_project ex_sender_fine) AND 0x00FFFFFF \<noteq> addr ex_receiver"
    by (simp_all add: ex_receiver_def ex_sender_fine_def ex_sender_def ex_settings_def
        ex_project_def EmptyFO_def)
  note df = decode_encode_fields [where proj = ex_project and t = ex_sender_fine
      and rx = ex_receiver and st = ex_settings and c = ex_params and k = ex_keys
      and m = ex_math and ms = 9000 and fop = EmptyFO, OF ex_layout_ok ex_codec_hyps(1) hyps]
  have x: "latitude ex_sender_fine = 48 + 5 / 262144" "latitude ex_receiver = 4801 / 100"
    by (simp_all add: ex_sender_fine_def ex_sender_def ex_receiver_def EmptyFO_def)
  have q: "legacy_round (48 + 5 / 262144) = 3750001" "legacy_round (4801 / 100) = 3750781"
    by (simp_all add: legacy_round_def c_int_def drop_bit_eq_div)
  have f: "uint (legacy_fold (48 + 5 / 262144) AND mask 19) = take_bit 19 (3750001 :: int)"
    by (simp only: legacy_fold_round q uint_field)
  have "legacy_unfold 19 (4801 / 100) (legacy_fold (48 + 5 / 262144) AND mask 19)
          = to_float (real_of_int (push_bit 7 3750001) * (1 / 10000000))"
    by (rule legacy_unfold_fold [OF _ _ _ f]) (simp_all add: q)
  also have "\<dots> = to_float (3750001 / 78125)" by (simp add: push_bit_eq_mult)
  also have "\<dots> = 48 + 3 / 262144"
  proof -
    have "\<lfloor>log 2 \<bar>3750001 / 78125 :: real\<bar>\<rfloor> = 5"
      by (rule float_exp_eq) simp_all
    then have u: "float_ulp (3750001 / 78125) = 1 / 262144"
      by (simp add: float_ulp_def powr_minus_divide)
    show ?thesis by (simp add: to_float_def u round_even_def Let_def)
  qed
  finally show ?thesis unfolding df(3) x .
qed




end
